theory Spec2Isabelle
  imports Complex_Main "HOL-Library.AList"
begin

section \<open>Signaling relay: the class WebRTCService\<close>

text \<open>
  The relay keeps two JavaScript maps, \<open>rooms\<close> (roomId to room) and \<open>connections\<close>
  (connectionId to connection info). A room holds a map of participants keyed by userId;
  it is modelled as an association list, so that its size and its iteration order are the
  ones of the JavaScript \<open>Map\<close> (\<open>AList.update\<close> replaces in place or appends,
  as \<open>Map.set\<close> does). Every handler runs on the single JavaScript thread and is modelled
  as a function from state to state; a handler that awaits the database does so after it has
  changed the maps, and the \<open>await\<close> of \<open>handleJoinRoom\<close> is on
  \<open>handleLeaveRoom\<close>, which never suspends. What a handler writes to a socket is appended to
  \<open>sent\<close>; every invocation of the database helper \<open>updateCall\<close> is appended to
  \<open>callUpdates\<close> together with the call id it was given. Wall-clock readings
  (\<open>Date.now()\<close>) are an argument of the handlers that store one.
  A JavaScript value that may be \<open>null\<close> or \<open>undefined\<close> is an \<open>option\<close>.
\<close>

record participant =
  p_connectionId :: nat
  p_userId :: string
  p_userType :: string
  p_joinedAt :: int
  p_isReady :: bool

record room =
  r_id :: string
  participants :: "(string \<times> participant) list"
  r_createdAt :: int
  r_status :: string
  r_callId :: "string option"

record connectionInfo =
  c_userId :: "string option"
  c_userType :: "string option"
  c_roomId :: "string option"
  c_connectedAt :: int
  c_isAlive :: bool
  c_socketOpen :: bool

record callUpdate =
  u_status :: string
  u_feedbackText :: string

text \<open>Messages the server writes to a socket (the \<open>timestamp\<close> fields are left out).\<close>

datatype message =
    Connected nat
  | UserJoined string string string "participant list"
  | RoomJoined string string "participant list"
  | UserLeft "string option" nat
  | RoomLeft string
  | OfferMsg string "string option" "string option"
  | AnswerMsg string "string option" "string option"
  | IceCandidateMsg string "string option"
  | CallStatusMsg string "string option" "string option"
  | UserDisconnected "string option" "string option" string
  | Pong
  | ErrorMsg string

text \<open>Messages a client sends, after \<open>JSON.parse\<close>; a missing field is the empty string.\<close>

datatype request =
    JoinRoom string string string
  | LeaveRoom
  | Offer string string
  | Answer string string
  | IceCandidate string string
  | CallStatus string "string option"
  | Ping
  | UnknownType string
  | InvalidJSON

record relay =
  rooms :: "string \<rightharpoonup> room"
  connections :: "nat \<rightharpoonup> connectionInfo"
  connectionCounter :: nat
  sent :: "(nat \<times> message) list"
  callUpdates :: "(string option \<times> callUpdate) list"

definition relay_init :: relay where
  "relay_init = \<lparr>rooms = Map.empty, connections = Map.empty, connectionCounter = 0,
     sent = [], callUpdates = []\<rparr>"

text \<open>\<open>sendMessage\<close>: nothing is written when the connection is unknown or its socket is
  not in the OPEN state.\<close>

definition sendMessage :: "nat \<Rightarrow> message \<Rightarrow> relay \<Rightarrow> relay" where
  "sendMessage cid m s =
     (case connections s cid of
        None \<Rightarrow> s
      | Some ci \<Rightarrow> if \<not> c_socketOpen ci then s else s\<lparr>sent := sent s @ [(cid, m)]\<rparr>)"

definition sendError :: "nat \<Rightarrow> string \<Rightarrow> relay \<Rightarrow> relay" where
  "sendError cid e s = sendMessage cid (ErrorMsg e) s"

text \<open>\<open>broadcastToRoom\<close>: every participant of the room except the excluded connection.\<close>

definition broadcastToRoom :: "string \<Rightarrow> message \<Rightarrow> nat \<Rightarrow> relay \<Rightarrow> relay" where
  "broadcastToRoom rid m excludeConnectionId s =
     (case rooms s rid of
        None \<Rightarrow> s
      | Some rm \<Rightarrow>
          fold (\<lambda>p acc. if p_connectionId (snd p) \<noteq> excludeConnectionId
                         then sendMessage (p_connectionId (snd p)) m acc else acc)
               (participants rm) s)"

text \<open>\<open>Map.delete(userId)\<close> with the user id of the connection, which is \<open>null\<close> until
  the connection has joined a room.\<close>

definition deleteParticipant ::
  "string option \<Rightarrow> (string \<times> participant) list \<Rightarrow> (string \<times> participant) list" where
  "deleteParticipant uid ps = (case uid of None \<Rightarrow> ps | Some u \<Rightarrow> AList.delete u ps)"

definition handleConnection :: "int \<Rightarrow> relay \<Rightarrow> relay" where
  "handleConnection now s =
     (let connectionId = connectionCounter s + 1;
          connInfo = \<lparr>c_userId = None, c_userType = None, c_roomId = None,
                      c_connectedAt = now, c_isAlive = True, c_socketOpen = True\<rparr>;
          s1 = s\<lparr>connectionCounter := connectionId,
                 connections := (connections s)(connectionId \<mapsto> connInfo)\<rparr>
      in sendMessage connectionId (Connected connectionId) s1)"

definition handleLeaveRoom :: "nat \<Rightarrow> relay \<Rightarrow> relay" where
  "handleLeaveRoom cid s =
     (case connections s cid of
        None \<Rightarrow> s
      | Some ci \<Rightarrow>
         (case c_roomId ci of
            None \<Rightarrow> s
          | Some rid \<Rightarrow>
             (let s1 =
                (case rooms s rid of
                   None \<Rightarrow> s
                 | Some rm \<Rightarrow>
                    (let rm1 = rm\<lparr>participants := deleteParticipant (c_userId ci) (participants rm)\<rparr>;
                         s' = broadcastToRoom rid
                                (UserLeft (c_userId ci) (length (participants rm1))) cid
                                (s\<lparr>rooms := (rooms s)(rid \<mapsto> rm1)\<rparr>)
                     in if length (participants rm1) = 0
                        then s'\<lparr>rooms := (rooms s')(rid := None)\<rparr>
                        else s'\<lparr>rooms := (rooms s')(rid \<mapsto> rm1\<lparr>r_status := ''waiting''\<rparr>)\<rparr>));
                  s2 = s1\<lparr>connections := (connections s1)(cid \<mapsto> ci\<lparr>c_roomId := None\<rparr>)\<rparr>
              in sendMessage cid (RoomLeft rid) s2)))"

definition handleJoinRoom :: "nat \<Rightarrow> string \<Rightarrow> string \<Rightarrow> string \<Rightarrow> int \<Rightarrow> relay \<Rightarrow> relay" where
  "handleJoinRoom cid roomId userId userType now s =
     (case connections s cid of
        None \<Rightarrow> sendError cid ''Failed to join room: Connection not found'' s
      | Some ci0 \<Rightarrow>
         if roomId = [] \<or> userId = [] \<or> userType = []
         then sendError cid
                ''Failed to join room: Missing required fields: roomId, userId, userType'' s
         else if userType \<notin> set [''blind'', ''volunteer'']
         then sendError cid ''Failed to join room: Invalid user type'' s
         else
           (let s1 = (if c_roomId ci0 \<noteq> None then handleLeaveRoom cid s else s);
                ci = (if c_roomId ci0 \<noteq> None then ci0\<lparr>c_roomId := None\<rparr> else ci0);
                rm0 = (case rooms s1 roomId of
                         None \<Rightarrow> \<lparr>r_id = roomId, participants = [], r_createdAt = now,
                                   r_status = ''waiting'', r_callId = None\<rparr>
                       | Some rm \<Rightarrow> rm);
                p = \<lparr>p_connectionId = cid, p_userId = userId, p_userType = userType,
                     p_joinedAt = now, p_isReady = False\<rparr>;
                rm1 = rm0\<lparr>participants := AList.update userId p (participants rm0)\<rparr>;
                rm2 = (if length (participants rm1) = 2 then rm1\<lparr>r_status := ''ready''\<rparr> else rm1);
                s2 = s1\<lparr>rooms := (rooms s1)(roomId \<mapsto> rm2),
                        connections := (connections s1)(cid \<mapsto>
                          ci\<lparr>c_userId := Some userId, c_userType := Some userType,
                             c_roomId := Some roomId\<rparr>)\<rparr>;
                s3 = broadcastToRoom roomId
                       (UserJoined userId userType (r_status rm2) (map snd (participants rm2)))
                       cid s2
            in sendMessage cid
                 (RoomJoined roomId (r_status rm2) (map snd (participants rm2))) s3))"

text \<open>\<open>handleOffer\<close>, \<open>handleAnswer\<close> and \<open>handleIceCandidate\<close> share one shape and
  differ in the message they forward; reading \<open>room.participants\<close> of a room that is
  no longer in the map raises a TypeError, which the handler's \<open>catch\<close> reports.\<close>

definition relayToTarget ::
  "string \<Rightarrow> (connectionInfo \<Rightarrow> message) \<Rightarrow> nat \<Rightarrow> string \<Rightarrow> string \<Rightarrow> relay \<Rightarrow> relay" where
  "relayToTarget what mk cid payload targetUserId s =
     (case connections s cid of
        None \<Rightarrow> sendError cid (''Failed to send '' @ what @ '': Not in a room'') s
      | Some ci \<Rightarrow>
         (case c_roomId ci of
            None \<Rightarrow> sendError cid (''Failed to send '' @ what @ '': Not in a room'') s
          | Some rid \<Rightarrow>
             if payload = [] \<or> targetUserId = []
             then sendError cid (''Failed to send '' @ what @ '': Missing '' @ what @ '' or targetUserId'') s
             else (case rooms s rid of
                     None \<Rightarrow> sendError cid (''Failed to send '' @ what
                               @ '': Cannot read properties of undefined'') s
                   | Some rm \<Rightarrow>
                      (case map_of (participants rm) targetUserId of
                         None \<Rightarrow> sendError cid
                                   (''Failed to send '' @ what @ '': Target user in room not found'') s
                       | Some tp \<Rightarrow> sendMessage (p_connectionId tp) (mk ci) s))))"

definition handleOffer :: "nat \<Rightarrow> string \<Rightarrow> string \<Rightarrow> relay \<Rightarrow> relay" where
  "handleOffer cid offer targetUserId s =
     relayToTarget ''offer'' (\<lambda>ci. OfferMsg offer (c_userId ci) (c_userType ci))
       cid offer targetUserId s"

definition handleAnswer :: "nat \<Rightarrow> string \<Rightarrow> string \<Rightarrow> relay \<Rightarrow> relay" where
  "handleAnswer cid answer targetUserId s =
     relayToTarget ''answer'' (\<lambda>ci. AnswerMsg answer (c_userId ci) (c_userType ci))
       cid answer targetUserId s"

definition handleIceCandidate :: "nat \<Rightarrow> string \<Rightarrow> string \<Rightarrow> relay \<Rightarrow> relay" where
  "handleIceCandidate cid candidate targetUserId s =
     relayToTarget ''ICE candidate'' (\<lambda>ci. IceCandidateMsg candidate (c_userId ci))
       cid candidate targetUserId s"

text \<open>\<open>reason || 'Call ended via WebRTC'\<close>: an absent or empty reason gives the default.\<close>

definition reasonOrDefault :: "string option \<Rightarrow> string" where
  "reasonOrDefault reason =
     (case reason of None \<Rightarrow> ''Call ended via WebRTC''
      | Some r \<Rightarrow> if r = [] then ''Call ended via WebRTC'' else r)"

definition handleCallStatus :: "nat \<Rightarrow> string \<Rightarrow> string option \<Rightarrow> relay \<Rightarrow> relay" where
  "handleCallStatus cid status reason s =
     (case connections s cid of
        None \<Rightarrow> sendError cid ''Failed to update call status: Not in a room'' s
      | Some ci \<Rightarrow>
         (case c_roomId ci of
            None \<Rightarrow> sendError cid ''Failed to update call status: Not in a room'' s
          | Some rid \<Rightarrow>
             if status = [] then sendError cid ''Failed to update call status: Missing status'' s
             else (case rooms s rid of
                     None \<Rightarrow> sendError cid
                               ''Failed to update call status: Cannot set properties of undefined'' s
                   | Some rm \<Rightarrow>
                      (let s1 = s\<lparr>rooms := (rooms s)(rid \<mapsto> rm\<lparr>r_status := status\<rparr>)\<rparr>;
                           s2 = (if status \<in> set [''completed'', ''failed'', ''ended'']
                                 then s1\<lparr>callUpdates := callUpdates s1 @
                                        [(r_callId rm,
                                          \<lparr>u_status = (if status = ''completed''
                                                        then ''completed'' else ''failed''),
                                           u_feedbackText = reasonOrDefault reason\<rparr>)]\<rparr>
                                 else s1)
                       in broadcastToRoom rid (CallStatusMsg status reason (c_userId ci)) cid s2))))"

text \<open>The template string \<open>`User ${userId} disconnected`\<close>.\<close>

definition disconnectedText :: "string option \<Rightarrow> string" where
  "disconnectedText uid =
     ''User '' @ (case uid of None \<Rightarrow> ''null'' | Some u \<Rightarrow> u) @ '' disconnected''"

definition handleDisconnection :: "nat \<Rightarrow> relay \<Rightarrow> relay" where
  "handleDisconnection cid s =
     (case connections s cid of
        None \<Rightarrow> s
      | Some ci \<Rightarrow>
         (let s1 =
            (case c_roomId ci of
               None \<Rightarrow> s
             | Some rid \<Rightarrow>
                (case rooms s rid of
                   None \<Rightarrow> s
                 | Some rm \<Rightarrow>
                    (let rm1 = rm\<lparr>participants := deleteParticipant (c_userId ci) (participants rm)\<rparr>;
                         s' = broadcastToRoom rid
                                (UserDisconnected (c_userId ci) (c_userType ci) ''Connection lost'')
                                cid (s\<lparr>rooms := (rooms s)(rid \<mapsto> rm1)\<rparr>);
                         rm2 = (if length (participants rm1) = 0 then rm1
                                else rm1\<lparr>r_status := ''waiting''\<rparr>);
                         s'' = (if length (participants rm1) = 0
                                then s'\<lparr>rooms := (rooms s')(rid := None)\<rparr>
                                else s'\<lparr>rooms := (rooms s')(rid \<mapsto> rm2)\<rparr>)
                     in if r_status rm2 \<in> set [''active'', ''connected'']
                        then s''\<lparr>callUpdates := callUpdates s'' @
                               [(r_callId rm2,
                                 \<lparr>u_status = ''failed'',
                                  u_feedbackText = disconnectedText (c_userId ci)\<rparr>)]\<rparr>
                        else s'')))
          in s1\<lparr>connections := (connections s1)(cid := None)\<rparr>))"

definition handleMessage :: "nat \<Rightarrow> request \<Rightarrow> int \<Rightarrow> relay \<Rightarrow> relay" where
  "handleMessage cid req now s =
     (case connections s cid of
        None \<Rightarrow> s
      | Some ci \<Rightarrow>
         (case req of
            InvalidJSON \<Rightarrow> sendError cid ''Invalid JSON message format'' s
          | JoinRoom roomId userId userType \<Rightarrow> handleJoinRoom cid roomId userId userType now s
          | LeaveRoom \<Rightarrow> handleLeaveRoom cid s
          | Offer offer target \<Rightarrow> handleOffer cid offer target s
          | Answer answer target \<Rightarrow> handleAnswer cid answer target s
          | IceCandidate candidate target \<Rightarrow> handleIceCandidate cid candidate target s
          | CallStatus status reason \<Rightarrow> handleCallStatus cid status reason s
          | Ping \<Rightarrow> sendMessage cid Pong s
          | UnknownType t \<Rightarrow> sendError cid (''Unknown message type: '' @ t) s))"

text \<open>The heartbeat timer of one connection, the \<open>pong\<close> listener, a socket that stops
  being open (closing or terminated, before its \<open>close\<close> event is handled), and the
  periodic \<open>cleanup\<close>.\<close>

definition heartbeat :: "nat \<Rightarrow> relay \<Rightarrow> relay" where
  "heartbeat cid s =
     (case connections s cid of
        None \<Rightarrow> s
      | Some ci \<Rightarrow>
         if \<not> c_isAlive ci
         then s\<lparr>connections := (connections s)(cid \<mapsto> ci\<lparr>c_socketOpen := False\<rparr>)\<rparr>
         else s\<lparr>connections := (connections s)(cid \<mapsto> ci\<lparr>c_isAlive := False\<rparr>)\<rparr>)"

definition pong :: "nat \<Rightarrow> relay \<Rightarrow> relay" where
  "pong cid s =
     (case connections s cid of
        None \<Rightarrow> s
      | Some ci \<Rightarrow> s\<lparr>connections := (connections s)(cid \<mapsto> ci\<lparr>c_isAlive := True\<rparr>)\<rparr>)"

definition socketClosing :: "nat \<Rightarrow> relay \<Rightarrow> relay" where
  "socketClosing cid s =
     (case connections s cid of
        None \<Rightarrow> s
      | Some ci \<Rightarrow> s\<lparr>connections := (connections s)(cid \<mapsto> ci\<lparr>c_socketOpen := False\<rparr>)\<rparr>)"

definition cleanup :: "int \<Rightarrow> relay \<Rightarrow> relay" where
  "cleanup now s =
     s\<lparr>connections := (\<lambda>cid. case connections s cid of
                           None \<Rightarrow> None
                         | Some ci \<Rightarrow> if now - c_connectedAt ci > 5 * 60 * 1000 \<and> \<not> c_isAlive ci
                                      then None else Some ci),
       rooms := (\<lambda>rid. case rooms s rid of
                     None \<Rightarrow> None
                   | Some rm \<Rightarrow> if length (participants rm) = 0
                                    \<and> r_createdAt rm < now - 60 * 60 * 1000
                                 then None else Some rm)\<rparr>"

text \<open>The states the relay can be in: any interleaving of the event-loop callbacks.\<close>

inductive relay_reachable :: "relay \<Rightarrow> bool" where
  rr_init: "relay_reachable relay_init"
| rr_connection: "relay_reachable s \<Longrightarrow> relay_reachable (handleConnection now s)"
| rr_message: "relay_reachable s \<Longrightarrow> relay_reachable (handleMessage cid req now s)"
| rr_disconnection: "relay_reachable s \<Longrightarrow> relay_reachable (handleDisconnection cid s)"
| rr_heartbeat: "relay_reachable s \<Longrightarrow> relay_reachable (heartbeat cid s)"
| rr_pong: "relay_reachable s \<Longrightarrow> relay_reachable (pong cid s)"
| rr_closing: "relay_reachable s \<Longrightarrow> relay_reachable (socketClosing cid s)"
| rr_cleanup: "relay_reachable s \<Longrightarrow> relay_reachable (cleanup now s)"


section \<open>Reward queue: the class BlockchainService\<close>

text \<open>
  JavaScript numbers are modelled by exact rationals and integers; a number that is
  \<open>undefined\<close> or \<open>NaN\<close> (both compare unequal to every threshold, and stay so
  under \<open>+\<close>) is \<open>None\<close>. The Firestore collections \<open>users\<close> and \<open>calls\<close>
  are maps from document id to document; other parts of the backend write them, so they are
  part of the state. The server key pair and the address check of the ledger library
  (\<open>validateWalletAddress\<close>) are fixed when the process starts.
\<close>

record user =
  usr_userType :: string
  usr_isAvailable :: bool
  usr_reputationScore :: "rat option"
  usr_walletAddress :: "string option"
  usr_totalCalls :: "int option"
  usr_totalHelpMinutes :: "int option"
  usr_lastActiveCall :: "string option"

record callDoc =
  cd_blindUserId :: string
  cd_volunteerUserId :: string
  cd_helpCategory :: string
  cd_roomId :: string
  cd_status :: string
  cd_durationSeconds :: "int option"
  cd_rating :: "int option"
  cd_responseTimeMs :: "int option"
  cd_totalCalls :: "int option"
  cd_totalHelpMinutes :: "int option"
  cd_reputationScore :: "rat option"
  cd_feedbackText :: "string option"

record rewardTransaction =
  t_id :: string
  t_userId :: string
  t_walletAddress :: string
  t_amount :: rat
  t_reason :: string
  t_callId :: "string option"
  t_type :: string
  t_status :: string
  t_createdAt :: int
  t_retryCount :: nat
  t_signature :: "string option"

datatype error =
    NotFoundError string
  | ValidationError string
  | MatchingError string
  | DatabaseError string
  | TypeError string

record blockchain =
  transactionQueue :: "rewardTransaction list"
  isProcessingQueue :: bool
  failedTransactions :: "(string \<times> rewardTransaction) list"
  completedTransactions :: "rewardTransaction list"
  users :: "string \<rightharpoonup> user"
  calls :: "string \<rightharpoonup> callDoc"
  serverKeypair :: bool
  validateWalletAddress :: "string \<Rightarrow> bool"

definition maxRetries :: nat where
  "maxRetries = 3"

text \<open>The reward table of the server configuration (amounts in SOL).\<close>

definition shortCall :: rat where "shortCall = 1 / 100"
definition mediumCall :: rat where "mediumCall = 25 / 1000"
definition longCall :: rat where "longCall = 5 / 100"
definition perfectRating :: rat where "perfectRating = 5 / 1000"
definition quickResponse :: rat where "quickResponse = 3 / 1000"
definition calls10 :: rat where "calls10 = 1 / 10"
definition calls50 :: rat where "calls50 = 1 / 2"
definition calls100 :: rat where "calls100 = 1"
definition calls500 :: rat where "calls500 = 5"
definition calls1000 :: rat where "calls1000 = 10"

definition blockchain_init :: "bool \<Rightarrow> (string \<Rightarrow> bool) \<Rightarrow> blockchain" where
  "blockchain_init keypair valid =
     \<lparr>transactionQueue = [], isProcessingQueue = False, failedTransactions = [],
      completedTransactions = [], users = Map.empty, calls = Map.empty,
      serverKeypair = keypair, validateWalletAddress = valid\<rparr>"

text \<open>\<open>calculateRewardAmount\<close>: a comparison with an absent duration is false, so such a
  call falls through to the last tier.\<close>

definition calculateRewardAmount :: "callDoc \<Rightarrow> rat" where
  "calculateRewardAmount callData =
     (let reward = (case cd_durationSeconds callData of
                      None \<Rightarrow> longCall
                    | Some d \<Rightarrow> if d \<le> 1800 then shortCall
                                else if d \<le> 3600 then mediumCall else longCall);
          reward1 = (if cd_rating callData = Some 5 then reward + perfectRating else reward)
      in (case cd_responseTimeMs callData of
            None \<Rightarrow> reward1
          | Some r \<Rightarrow> if r \<noteq> 0 \<and> r < 30000 then reward1 + quickResponse else reward1))"

text \<open>\<open>calculateMilestoneReward\<close> returns the number 0, not an object, for an unknown
  user and for one who is not a volunteer: \<open>None\<close> here. The caller then reads
  \<open>.reward\<close> of a number, which is \<open>undefined\<close>.\<close>

definition calculateMilestoneReward :: "string \<Rightarrow> blockchain \<Rightarrow> (rat \<times> string) option" where
  "calculateMilestoneReward userId s =
     (case users s userId of
        None \<Rightarrow> None
      | Some u \<Rightarrow>
          if usr_userType u \<noteq> ''volunteer'' then None
          else if usr_totalCalls u = Some 10 then Some (calls10, ''10 calls milestone'')
          else if usr_totalCalls u = Some 50 then Some (calls50, ''50 calls milestone'')
          else if usr_totalCalls u = Some 100 then Some (calls100, ''100 calls milestone'')
          else if usr_totalCalls u = Some 500 then Some (calls500, ''500 calls milestone'')
          else if usr_totalCalls u = Some 1000 then Some (calls1000, ''1000 calls milestone'')
          else Some (0, []))"

text \<open>
  The consumer loop \<open>processTransactionQueue\<close> suspends at every ledger and database
  call, and other requests run in between. It is modelled by its two pieces:
  \<open>processTransactionQueue\<close> is the entry (the guard and the flag), and
  \<open>processNextTransaction\<close> is one pass through the \<open>while\<close> loop, taken as one
  step, with the replies of the ledger and the database for that pass as an argument.
  The transaction that the loop has taken with \<open>shift\<close> and still holds while it waits
  for a reply is shown at the head of the queue until the pass is over.
\<close>

record replies =
  balanceLamports :: "int option"
  sendSOL :: "string option"
  databaseWrites :: bool

definition processTransactionQueue :: "blockchain \<Rightarrow> blockchain" where
  "processTransactionQueue s =
     (if isProcessingQueue s \<or> \<not> serverKeypair s then s
      else s\<lparr>isProcessingQueue := True\<rparr>)"

text \<open>The retry bookkeeping, which the loop has twice (insufficient balance, and the
  \<open>catch\<close> block): count the retry, then re-queue or move to the failed map.\<close>

definition retryOrFail :: "rewardTransaction \<Rightarrow> blockchain \<Rightarrow> blockchain" where
  "retryOrFail tx s =
     (let tx1 = tx\<lparr>t_retryCount := t_retryCount tx + 1\<rparr>
      in if t_retryCount tx1 < maxRetries
         then s\<lparr>transactionQueue := transactionQueue s @ [tx1]\<rparr>
         else s\<lparr>failedTransactions := AList.update (t_id tx1) tx1 (failedTransactions s)\<rparr>)"

definition processNextTransaction :: "replies \<Rightarrow> blockchain \<Rightarrow> blockchain" where
  "processNextTransaction env s =
     (if \<not> isProcessingQueue s then s
      else case transactionQueue s of
        [] \<Rightarrow> s\<lparr>isProcessingQueue := False\<rparr>
      | tx # rest \<Rightarrow>
         (let s1 = s\<lparr>transactionQueue := rest\<rparr>
          in case balanceLamports env of
               None \<Rightarrow> retryOrFail tx s1
             | Some balance \<Rightarrow>
                 if of_int balance / 1000000000 < t_amount tx + 2 / 1000
                 then retryOrFail tx s1
                 else (case sendSOL env of
                         None \<Rightarrow> retryOrFail tx s1
                       | Some signature \<Rightarrow>
                           (let tx1 = tx\<lparr>t_status := ''completed'',
                                          t_signature := Some signature\<rparr>
                            in if databaseWrites env
                               then s1\<lparr>completedTransactions :=
                                         completedTransactions s1 @ [tx1]\<rparr>
                               else retryOrFail tx1 s1))))"

text \<open>\<open>queueRewardTransaction\<close>; the transaction id, built from the clock and a random
  number in the source, and the clock reading are arguments.\<close>

definition queueRewardTransaction ::
  "string \<Rightarrow> rat \<Rightarrow> string \<Rightarrow> string option \<Rightarrow> string \<Rightarrow> string \<Rightarrow> int \<Rightarrow> blockchain
     \<Rightarrow> error + (string \<times> blockchain)" where
  "queueRewardTransaction userId amount reason callId type txid now s =
     (case users s userId of
        None \<Rightarrow> Inl (NotFoundError ''User'')
      | Some u \<Rightarrow>
         (case usr_walletAddress u of
            None \<Rightarrow> Inl (ValidationError ''User must have a wallet address'')
          | Some w \<Rightarrow>
              if w = [] then Inl (ValidationError ''User must have a wallet address'')
              else if \<not> validateWalletAddress s w then Inl (ValidationError ''Invalid wallet address'')
              else if amount \<le> 0 then Inl (ValidationError ''Reward amount must be positive'')
              else
                (let tx = \<lparr>t_id = txid, t_userId = userId, t_walletAddress = w,
                           t_amount = amount, t_reason = reason, t_callId = callId,
                           t_type = type, t_status = ''queued'', t_createdAt = now,
                           t_retryCount = 0, t_signature = None\<rparr>
                 in Inr (txid, processTransactionQueue
                                 (s\<lparr>transactionQueue := transactionQueue s @ [tx]\<rparr>)))))"

text \<open>\<open>updateUserReputation\<close>: the on-chain update is a placeholder in the source; the
  user document gets the new score. \<open>updateUser\<close> rejects when the document is missing.\<close>

definition updateUserReputation ::
  "string \<Rightarrow> rat option \<Rightarrow> blockchain \<Rightarrow> error + blockchain" where
  "updateUserReputation userId newScore s =
     (case users s userId of
        None \<Rightarrow> Inl (NotFoundError ''User'')
      | Some u \<Rightarrow>
         (case usr_walletAddress u of
            None \<Rightarrow> Inl (ValidationError ''User must have a wallet address'')
          | Some w \<Rightarrow>
              if w = [] then Inl (ValidationError ''User must have a wallet address'')
              else Inr (s\<lparr>users := (users s)(userId \<mapsto> u\<lparr>usr_reputationScore := newScore\<rparr>)\<rparr>)))"

text \<open>Decimal digits of a number, and \<open>Math.ceil(durationSeconds / 60)\<close> as it is printed
  in the reason of a completion reward.\<close>

fun showNat :: "nat \<Rightarrow> string" where
  "showNat n = (if n < 10 then [''0123456789'' ! n]
                else showNat (n div 10) @ [''0123456789'' ! (n mod 10)])"

definition showMinutes :: "int option \<Rightarrow> string" where
  "showMinutes d =
     (case d of
        None \<Rightarrow> ''NaN''
      | Some sec \<Rightarrow> (let m = - ((- sec) div 60)
                     in if m < 0 then ''-'' @ showNat (nat (- m)) else showNat (nat m)))"

definition ceilMinutes :: "int option \<Rightarrow> int option" where
  "ceilMinutes d = map_option (\<lambda>sec. - ((- sec) div 60)) d"

definition addOpt :: "int option \<Rightarrow> int option \<Rightarrow> int option" where
  "addOpt a b = (case a of None \<Rightarrow> None | Some x \<Rightarrow> map_option (\<lambda>y. x + y) b)"

record rewardSummary =
  rs_callCompletion :: rat
  rs_milestone :: "rat option"
  rs_total :: "rat option"

text \<open>\<open>processCompletedCall\<close>. An exception leaves the method where it is raised, so the
  state at that point comes back with the error. The two transaction ids and the clock
  reading are arguments.\<close>

definition processCompletedCall ::
  "string \<Rightarrow> string \<Rightarrow> string \<Rightarrow> int \<Rightarrow> blockchain \<Rightarrow> (error + rewardSummary) \<times> blockchain" where
  "processCompletedCall callId txid1 txid2 now s =
     (case calls s callId of
        None \<Rightarrow> (Inl (NotFoundError ''Call''), s)
      | Some callData \<Rightarrow>
         if cd_status callData \<noteq> ''completed''
         then (Inl (ValidationError ''Call must be completed to process rewards''), s)
         else
           (let rewardAmount = calculateRewardAmount callData;
                vol = cd_volunteerUserId callData
            in case queueRewardTransaction vol rewardAmount
                      (''Completed '' @ showMinutes (cd_durationSeconds callData) @ ''-minute call'')
                      (Some callId) ''call_completion'' txid1 now s of
                 Inl e \<Rightarrow> (Inl e, s)
               | Inr (_, s1) \<Rightarrow>
                  (let milestoneReward = calculateMilestoneReward vol s1
                   in case (case milestoneReward of
                              None \<Rightarrow> Inr ([], s1)
                            | Some m \<Rightarrow>
                                if fst m > 0
                                then queueRewardTransaction vol (fst m) (snd m)
                                       (Some callId) ''milestone'' txid2 now s1
                                else Inr ([], s1)) of
                        Inl e \<Rightarrow> (Inl e, s1)
                      | Inr (_, s2) \<Rightarrow>
                         (case users s2 vol of
                            None \<Rightarrow> (Inl (DatabaseError ''users''), s2)
                          | Some u \<Rightarrow>
                             (let s3 = s2\<lparr>users := (users s2)(vol \<mapsto>
                                           u\<lparr>usr_totalCalls := addOpt (cd_totalCalls callData) (Some 1),
                                             usr_totalHelpMinutes :=
                                               addOpt (cd_totalHelpMinutes callData)
                                                      (ceilMinutes (cd_durationSeconds callData)),
                                             usr_lastActiveCall := Some callId\<rparr>)\<rparr>
                              in case updateUserReputation vol
                                        (map_option (\<lambda>r. r + 10) (cd_reputationScore callData)) s3 of
                                   Inl e \<Rightarrow> (Inl e, s3)
                                 | Inr s4 \<Rightarrow>
                                     (Inr \<lparr>rs_callCompletion = rewardAmount,
                                           rs_milestone = map_option fst milestoneReward,
                                           rs_total = map_option (\<lambda>m. rewardAmount + fst m)
                                                        milestoneReward\<rparr>, s4))))))"

text \<open>\<open>retryFailedTransactions\<close>: the failed transactions whose retry count is below the
  maximum go back to the queue with the count reset; the result is how many there were.\<close>

definition retryFailedTransactions :: "blockchain \<Rightarrow> nat \<times> blockchain" where
  "retryFailedTransactions s =
     (let retryableTransactions =
            filter (\<lambda>tx. t_retryCount tx < maxRetries) (map snd (failedTransactions s));
          s1 = fold (\<lambda>tx acc.
                  acc\<lparr>failedTransactions := AList.delete (t_id tx) (failedTransactions acc),
                      transactionQueue := transactionQueue acc @ [tx\<lparr>t_retryCount := 0\<rparr>]\<rparr>)
                retryableTransactions s
      in (length retryableTransactions, processTransactionQueue s1))"

text \<open>The requests and timers that act on the reward queue. The last two stand for the rest
  of the backend writing a user or a call document.\<close>

datatype queueEvent =
    QueueReward string rat string "string option" string string int
  | ProcessCompletedCall string string string int
  | ProcessTimer
  | ProcessNext replies
  | RetryFailed
  | WriteUser string user
  | WriteCall string callDoc

definition queueStep :: "queueEvent \<Rightarrow> blockchain \<Rightarrow> blockchain" where
  "queueStep ev s =
     (case ev of
        QueueReward userId amount reason callId type txid now \<Rightarrow>
          (case queueRewardTransaction userId amount reason callId type txid now s of
             Inl e \<Rightarrow> s | Inr (_, s1) \<Rightarrow> s1)
      | ProcessCompletedCall callId txid1 txid2 now \<Rightarrow>
          snd (processCompletedCall callId txid1 txid2 now s)
      | ProcessTimer \<Rightarrow> processTransactionQueue s
      | ProcessNext env \<Rightarrow> processNextTransaction env s
      | RetryFailed \<Rightarrow> snd (retryFailedTransactions s)
      | WriteUser userId u \<Rightarrow> s\<lparr>users := (users s)(userId \<mapsto> u)\<rparr>
      | WriteCall callId c \<Rightarrow> s\<lparr>calls := (calls s)(callId \<mapsto> c)\<rparr>)"

text \<open>A run of the queue: the events in the order they happen, from the initial state.\<close>

definition queueRun :: "queueEvent list \<Rightarrow> blockchain \<Rightarrow> blockchain" where
  "queueRun evs s = fold queueStep evs s"

definition queue_reachable :: "blockchain \<Rightarrow> bool" where
  "queue_reachable s = (\<exists>keypair valid evs. s = queueRun evs (blockchain_init keypair valid))"


section \<open>Matching engine: the class MatchingService\<close>

text \<open>
  The service keeps four maps in memory. It reads user documents with \<open>getUser\<close> and
  writes call documents with \<open>createCall\<close> and \<open>updateCall\<close>; both collections
  are part of the state (\<open>m_users\<close>, \<open>m_calls\<close>). \<open>updateCall\<close> rejects when the
  document does not exist. What the process cannot decide is an argument: the clock
  reading of each attempt, the answer of the query \<open>getActiveVolunteers\<close> at each
  attempt, and the identifiers that the database and the random generator hand out.
  The only thing \<open>setVolunteerAvailability\<close> does in the source is to print a line on
  the console when the user document exists; \<open>availabilityLog\<close> holds these lines.
\<close>

record volunteer =
  v_id :: string
  v_firstName :: string
  v_reputationScore :: rat
  v_totalCalls :: "int option"
  v_skills :: "string list option"
  v_averageResponseTime :: "rat option"
  v_isOnline :: bool

record waitingInfo =
  w_userId :: string
  w_helpCategory :: string
  w_priority :: int
  w_startTime :: int
  w_timeout :: int
  w_status :: string

record matchInfo =
  m_callId :: string
  m_blindUserId :: string
  m_volunteerUserId :: string
  m_roomId :: string
  m_status :: string
  m_matchedAt :: int

record matchResult =
  mr_volunteerId :: string
  mr_firstName :: string
  mr_reputationScore :: rat
  mr_totalCalls :: "int option"
  mr_callId :: string
  mr_roomId :: string
  mr_helpCategory :: string

record matching =
  waitingQueue :: "string \<rightharpoonup> waitingInfo"
  activeMatches :: "string \<rightharpoonup> matchInfo"
  volunteerLastCall :: "string \<rightharpoonup> int"
  callCount :: "string \<rightharpoonup> nat"
  m_users :: "string \<rightharpoonup> user"
  m_calls :: "string \<rightharpoonup> callDoc"
  availabilityLog :: "(string \<times> bool) list"

record matchEnv =
  clock :: "nat \<Rightarrow> int"
  activeVolunteers :: "nat \<Rightarrow> volunteer list"
  newCallId :: string
  newRoomId :: string

definition reputationWeight :: rat where
  "reputationWeight = 1 / 10"

definition maxWaitTime :: int where
  "maxWaitTime = 2 * 60 * 1000"

definition maxAttempts :: nat where
  "maxAttempts = 3"

text \<open>\<open>calculateVolunteerScore\<close>; \<open>map.get(id) || 0\<close> reads an absent entry as 0, and
  \<open>x && x < 30000\<close> is false for an absent and for a zero \<open>x\<close>.\<close>

definition calculateVolunteerScore ::
  "matching \<Rightarrow> int \<Rightarrow> volunteer \<Rightarrow> string \<Rightarrow> int \<Rightarrow> rat" where
  "calculateVolunteerScore s now vol helpCategory priority =
     (let score0 = v_reputationScore vol * reputationWeight;
          lastCallTime = (case volunteerLastCall s (v_id vol) of None \<Rightarrow> 0 | Some t \<Rightarrow> t);
          idleTime = now - lastCallTime;
          idleHours = of_int idleTime / (1000 * 60 * 60);
          score1 = score0 + min (idleHours * 2) 10;
          callCountToday = (case callCount s (v_id vol) of None \<Rightarrow> 0 | Some c \<Rightarrow> c);
          score2 = score1 - min (of_nat callCountToday * 1) 5;
          score3 = (case v_skills vol of
                      None \<Rightarrow> score2
                    | Some sk \<Rightarrow> if helpCategory \<in> set sk then score2 + 10 else score2);
          score4 = (case v_averageResponseTime vol of
                      None \<Rightarrow> score3
                    | Some t \<Rightarrow> if t \<noteq> 0 \<and> t < 30000 then score3 + 5 else score3);
          score5 = (if \<not> v_isOnline vol then score4 - 20 else score4)
      in max score5 0)"

text \<open>\<open>findBestMatch\<close>, at attempt \<open>k\<close>. The JavaScript sort is stable, as is
  \<open>sort_key\<close>; sorting by the negated score puts the highest score first.\<close>

definition findBestMatch ::
  "matchEnv \<Rightarrow> nat \<Rightarrow> string \<Rightarrow> string \<Rightarrow> int \<Rightarrow> matching \<Rightarrow> error + (volunteer \<times> rat)" where
  "findBestMatch env k blindUserId helpCategory priority s =
     (case m_users s blindUserId of
        None \<Rightarrow> Inl (NotFoundError ''Blind user'')
      | Some blindUser \<Rightarrow>
          if usr_userType blindUser \<noteq> ''blind'' then Inl (NotFoundError ''Blind user'')
          else if length (activeVolunteers env k) = 0
          then Inl (MatchingError ''No volunteers available at the moment'')
          else
            (let scoredVolunteers =
                   map (\<lambda>vol. (vol, calculateVolunteerScore s (clock env k) vol
                                       helpCategory priority))
                       (activeVolunteers env k)
             in case sort_key (\<lambda>p. - snd p) scoredVolunteers of
                  [] \<Rightarrow> Inl (TypeError ''Cannot read properties of undefined'')
                | bestVolunteer # _ \<Rightarrow>
                    if snd bestVolunteer \<le> 0
                    then Inl (MatchingError ''No suitable volunteers available'')
                    else Inr bestVolunteer))"

definition setVolunteerAvailability :: "string \<Rightarrow> bool \<Rightarrow> matching \<Rightarrow> matching" where
  "setVolunteerAvailability volunteerId isAvailable s =
     (case m_users s volunteerId of
        None \<Rightarrow> s
      | Some _ \<Rightarrow> s\<lparr>availabilityLog := availabilityLog s @ [(volunteerId, isAvailable)]\<rparr>)"

text \<open>The body of the \<open>try\<close> block of \<open>attemptMatch\<close>, for attempt \<open>k\<close>.\<close>

definition tryMatch ::
  "matchEnv \<Rightarrow> nat \<Rightarrow> string \<Rightarrow> waitingInfo \<Rightarrow> matching \<Rightarrow> (error + matchResult) \<times> matching" where
  "tryMatch env k blindUserId wi s =
     (if clock env k > w_timeout wi
      then (Inl (MatchingError ''Matching timeout - no volunteers found''),
            s\<lparr>waitingQueue := (waitingQueue s)(blindUserId := None)\<rparr>)
      else case findBestMatch env k blindUserId (w_helpCategory wi) (w_priority wi) s of
             Inl e \<Rightarrow> (Inl e, s)
           | Inr best \<Rightarrow>
              (let vol = fst best;
                   call = \<lparr>cd_blindUserId = blindUserId, cd_volunteerUserId = v_id vol,
                           cd_helpCategory = w_helpCategory wi, cd_roomId = newRoomId env,
                           cd_status = ''pending'', cd_durationSeconds = None, cd_rating = None,
                           cd_responseTimeMs = None, cd_totalCalls = None,
                           cd_totalHelpMinutes = None, cd_reputationScore = None,
                           cd_feedbackText = None\<rparr>;
                   s1 = s\<lparr>m_calls := (m_calls s)(newCallId env \<mapsto> call)\<rparr>;
                   s2 = setVolunteerAvailability (v_id vol) False s1;
                   s3 = s2\<lparr>activeMatches := (activeMatches s2)(newRoomId env \<mapsto>
                              \<lparr>m_callId = newCallId env, m_blindUserId = blindUserId,
                               m_volunteerUserId = v_id vol, m_roomId = newRoomId env,
                               m_status = ''matched'', m_matchedAt = clock env k\<rparr>),
                           volunteerLastCall := (volunteerLastCall s2)(v_id vol \<mapsto> clock env k),
                           callCount := (callCount s2)(v_id vol \<mapsto>
                              (case callCount s2 (v_id vol) of None \<Rightarrow> 0 | Some c \<Rightarrow> c) + 1),
                           waitingQueue := (waitingQueue s2)(blindUserId := None)\<rparr>
               in (Inr \<lparr>mr_volunteerId = v_id vol, mr_firstName = v_firstName vol,
                        mr_reputationScore = v_reputationScore vol,
                        mr_totalCalls = v_totalCalls vol, mr_callId = newCallId env,
                        mr_roomId = newRoomId env, mr_helpCategory = w_helpCategory wi\<rparr>, s3)))"

text \<open>\<open>attemptMatch\<close>: the \<open>for\<close> loop from attempt \<open>k\<close> on. The third component of the
  result counts the 2-second delays (\<open>setTimeout\<close> of \<open>attemptDelay\<close>) the loop has
  waited for. A loop that ends without \<open>return\<close> gives \<open>undefined\<close>, here \<open>Inr None\<close>.\<close>

function attemptMatchFrom ::
  "matchEnv \<Rightarrow> string \<Rightarrow> waitingInfo \<Rightarrow> nat \<Rightarrow> nat \<Rightarrow> matching
     \<Rightarrow> (error + matchResult option) \<times> matching \<times> nat" where
  "attemptMatchFrom env blindUserId wi k delays s =
     (if k \<le> maxAttempts
      then (case tryMatch env k blindUserId wi s of
              (Inr r, s1) \<Rightarrow> (Inr (Some r), s1, delays)
            | (Inl e, s1) \<Rightarrow>
                if k = maxAttempts
                then (Inl e, s1\<lparr>waitingQueue := (waitingQueue s1)(blindUserId := None)\<rparr>, delays)
                else attemptMatchFrom env blindUserId wi (k + 1) (delays + 1) s1)
      else (Inr None, s, delays))"
  by pat_completeness auto
termination
  by (relation "measure (\<lambda>(env, blindUserId, wi, k, delays, s). maxAttempts + 1 - k)") auto

definition attemptMatch ::
  "matchEnv \<Rightarrow> string \<Rightarrow> waitingInfo \<Rightarrow> matching \<Rightarrow> (error + matchResult option) \<times> matching \<times> nat" where
  "attemptMatch env blindUserId wi s = attemptMatchFrom env blindUserId wi 1 0 s"

text \<open>\<open>startMatching\<close>; the clock reading at the request is \<open>clock env 0\<close>. The
  \<open>catch\<close> block removes the queue entry on every error, also on the one raised for
  a user who is already queued.\<close>

definition startMatching ::
  "matchEnv \<Rightarrow> string \<Rightarrow> string \<Rightarrow> int \<Rightarrow> int \<Rightarrow> matching
     \<Rightarrow> (error + matchResult option) \<times> matching \<times> nat" where
  "startMatching env blindUserId helpCategory priority timeoutMs s =
     (if waitingQueue s blindUserId \<noteq> None
      then (Inl (MatchingError ''User is already in the matching queue''),
            s\<lparr>waitingQueue := (waitingQueue s)(blindUserId := None)\<rparr>, 0)
      else
        (let wi = \<lparr>w_userId = blindUserId, w_helpCategory = helpCategory, w_priority = priority,
                   w_startTime = clock env 0, w_timeout = clock env 0 + timeoutMs,
                   w_status = ''waiting''\<rparr>;
             s1 = s\<lparr>waitingQueue := (waitingQueue s)(blindUserId \<mapsto> wi)\<rparr>
         in case attemptMatch env blindUserId wi s1 of
              (Inl e, s2, delays) \<Rightarrow>
                (Inl e, s2\<lparr>waitingQueue := (waitingQueue s2)(blindUserId := None)\<rparr>, delays)
            | (Inr r, s2, delays) \<Rightarrow> (Inr r, s2, delays)))"

text \<open>\<open>declineMatch\<close>. The rematch is started and not awaited: the method returns the
  \<open>waitingInfo\<close> it has built for it, and \<open>rematch\<close> is what the detached
  \<open>attemptMatch\<close> does later, its error going to the log only.\<close>

definition declineMatch ::
  "string \<Rightarrow> string \<Rightarrow> string option \<Rightarrow> int \<Rightarrow> matching \<Rightarrow> (error + waitingInfo) \<times> matching" where
  "declineMatch roomId volunteerId reason now s =
     (case activeMatches s roomId of
        None \<Rightarrow> (Inl (NotFoundError ''Active match''), s)
      | Some match \<Rightarrow>
          if m_volunteerUserId match \<noteq> volunteerId
          then (Inl (MatchingError ''Volunteer not authorized for this match''), s)
          else
            (let s1 = setVolunteerAvailability volunteerId True s
             in case m_calls s1 (m_callId match) of
                  None \<Rightarrow> (Inl (DatabaseError ''calls''), s1)
                | Some c \<Rightarrow>
                   (let s2 = s1\<lparr>m_calls := (m_calls s1)(m_callId match \<mapsto>
                                 c\<lparr>cd_status := ''failed'',
                                   cd_feedbackText := Some (case reason of
                                       None \<Rightarrow> ''Volunteer unavailable'' | Some r \<Rightarrow> r)\<rparr>)\<rparr>;
                        s3 = s2\<lparr>activeMatches := (activeMatches s2)(roomId := None)\<rparr>;
                        wi = \<lparr>w_userId = m_blindUserId match, w_helpCategory = ''general'',
                              w_priority = 5, w_startTime = now, w_timeout = now + 60000,
                              w_status = ''rematching''\<rparr>
                    in (Inr wi, s3))))"

definition rematch :: "matchEnv \<Rightarrow> waitingInfo \<Rightarrow> matching \<Rightarrow> matching" where
  "rematch env wi s = fst (snd (attemptMatch env (w_userId wi) wi s))"

definition matching_init :: matching where
  "matching_init = \<lparr>waitingQueue = Map.empty, activeMatches = Map.empty,
     volunteerLastCall = Map.empty, callCount = Map.empty, m_users = Map.empty,
     m_calls = Map.empty, availabilityLog = []\<rparr>"


section \<open>Concrete states and inputs\<close>

text \<open>Two connections that have joined the same room as the blind user and the
  volunteer; the same room after the blind user has reported the call active; and a third
  connection joining it under a third user id.\<close>

definition oneJoined :: relay where
  "oneJoined =
     handleMessage 1 (JoinRoom ''room1'' ''blind1'' ''blind'') 2 (handleConnection 1 relay_init)"

definition twoJoined :: relay where
  "twoJoined =
     handleMessage 2 (JoinRoom ''room1'' ''vol1'' ''volunteer'') 4
       (handleMessage 1 (JoinRoom ''room1'' ''blind1'' ''blind'') 3
         (handleConnection 2 (handleConnection 1 relay_init)))"

definition activeRoom :: relay where
  "activeRoom = handleMessage 1 (CallStatus ''active'' None) 5 twoJoined"

definition threeJoined :: relay where
  "threeJoined =
     handleMessage 3 (JoinRoom ''room1'' ''vol2'' ''volunteer'') 7 (handleConnection 6 twoJoined)"

text \<open>A volunteer document with a given call count, a completed ten-minute call, and the
  replies of a ledger without funds and of one with funds.\<close>

definition volunteerDoc :: "int option \<Rightarrow> user" where
  "volunteerDoc n = \<lparr>usr_userType = ''volunteer'', usr_isAvailable = True,
     usr_reputationScore = Some 100, usr_walletAddress = Some ''wallet1'',
     usr_totalCalls = n, usr_totalHelpMinutes = Some 0, usr_lastActiveCall = None\<rparr>"

definition blindDoc :: user where
  "blindDoc = \<lparr>usr_userType = ''blind'', usr_isAvailable = False, usr_reputationScore = Some 0,
     usr_walletAddress = None, usr_totalCalls = Some 0, usr_totalHelpMinutes = Some 0,
     usr_lastActiveCall = None\<rparr>"

definition completedCallDoc :: callDoc where
  "completedCallDoc = \<lparr>cd_blindUserId = ''blind1'', cd_volunteerUserId = ''vol1'',
     cd_helpCategory = ''general'', cd_roomId = ''room1'', cd_status = ''completed'',
     cd_durationSeconds = Some 600, cd_rating = None, cd_responseTimeMs = None,
     cd_totalCalls = None, cd_totalHelpMinutes = None, cd_reputationScore = None,
     cd_feedbackText = None\<rparr>"

definition lowBalance :: replies where
  "lowBalance = \<lparr>balanceLamports = Some 0, sendSOL = Some ''sig'', databaseWrites = True\<rparr>"

definition paid :: replies where
  "paid = \<lparr>balanceLamports = Some 1000000000, sendSOL = Some ''sig'', databaseWrites = True\<rparr>"

definition queue_start :: blockchain where
  "queue_start = blockchain_init True (\<lambda>w. True)"

definition failedTwice :: blockchain where
  "failedTwice = queueRun [WriteUser ''vol1'' (volunteerDoc (Some 0)),
      QueueReward ''vol1'' (1 / 100) ''bonus'' None ''bonus'' ''tx1'' 0,
      ProcessNext lowBalance, ProcessNext lowBalance] queue_start"

definition failedThrice :: blockchain where
  "failedThrice = queueRun [WriteUser ''vol1'' (volunteerDoc (Some 0)),
      QueueReward ''vol1'' (1 / 100) ''bonus'' None ''bonus'' ''tx1'' 0,
      ProcessNext lowBalance, ProcessNext lowBalance, ProcessNext lowBalance] queue_start"

definition processedTwice :: "queueEvent list" where
  "processedTwice = [WriteUser ''vol1'' (volunteerDoc (Some 0)),
      WriteCall ''call1'' completedCallDoc,
      ProcessCompletedCall ''call1'' ''tx1'' ''tx2'' 10,
      ProcessCompletedCall ''call1'' ''tx3'' ''tx4'' 20,
      ProcessNext paid, ProcessNext paid]"

definition nineCalls :: blockchain where
  "nineCalls = queueRun [WriteUser ''vol1'' (volunteerDoc (Some 9)),
      WriteCall ''call10'' completedCallDoc] queue_start"

text \<open>Volunteers as the query returns them, a matching state with the two user documents,
  an environment in which the query finds nobody, one in which it finds the volunteer, and
  the state after the help-seeker has been matched in the latter.\<close>

definition offlineVolunteer :: volunteer where
  "offlineVolunteer = \<lparr>v_id = ''vol1'', v_firstName = ''Vera'', v_reputationScore = 0,
     v_totalCalls = Some 0, v_skills = None, v_averageResponseTime = None, v_isOnline = False\<rparr>"

definition readingVolunteer :: volunteer where
  "readingVolunteer = \<lparr>v_id = ''vol1'', v_firstName = ''Vera'', v_reputationScore = 100,
     v_totalCalls = Some 0, v_skills = Some [''reading''], v_averageResponseTime = None,
     v_isOnline = True\<rparr>"

definition matching_users :: matching where
  "matching_users =
     matching_init\<lparr>m_users := [''blind1'' \<mapsto> blindDoc, ''vol1'' \<mapsto> volunteerDoc (Some 0)]\<rparr>"

definition noVolunteersEnv :: matchEnv where
  "noVolunteersEnv = \<lparr>clock = (\<lambda>k. 2000 * int k), activeVolunteers = (\<lambda>k. []),
     newCallId = ''call1'', newRoomId = ''room1''\<rparr>"

definition oneVolunteerEnv :: matchEnv where
  "oneVolunteerEnv = \<lparr>clock = (\<lambda>k. 2000 * int k), activeVolunteers = (\<lambda>k. [readingVolunteer]),
     newCallId = ''call1'', newRoomId = ''room1''\<rparr>"

definition matched :: matching where
  "matched =
     fst (snd (startMatching oneVolunteerEnv ''blind1'' ''reading'' 5 maxWaitTime matching_users))"

text \<open>The same state after the volunteer has switched the availability flag of the user
  document off (the users route writes it).\<close>

definition matchedUnavailable :: matching where
  "matchedUnavailable =
     matched\<lparr>m_users := (m_users matched)(''vol1'' \<mapsto>
                (volunteerDoc (Some 0))\<lparr>usr_isAvailable := False\<rparr>)\<rparr>"

definition rematchInfo :: waitingInfo where
  "rematchInfo = \<lparr>w_userId = ''blind1'', w_helpCategory = ''general'', w_priority = 5,
     w_startTime = 5000, w_timeout = 65000, w_status = ''rematching''\<rparr>"

section \<open>What the specification says, where it is compared with the code\<close>

text \<open>The score formula in the words of the specification: no floor at zero, and the
  response bonus for every recorded average below 30 seconds.\<close>

definition claimedVolunteerScore :: "matching \<Rightarrow> int \<Rightarrow> volunteer \<Rightarrow> string \<Rightarrow> rat" where
  "claimedVolunteerScore s now vol helpCategory =
     v_reputationScore vol * (1 / 10)
     + min (of_int (now - (case volunteerLastCall s (v_id vol) of None \<Rightarrow> 0 | Some t \<Rightarrow> t))
              / 3600000 * 2) 10
     - min (of_nat (case callCount s (v_id vol) of None \<Rightarrow> 0 | Some c \<Rightarrow> c) * 1) 5
     + (if \<exists>sk. v_skills vol = Some sk \<and> helpCategory \<in> set sk then 10 else 0)
     + (if \<exists>t. v_averageResponseTime vol = Some t \<and> t < 30000 then 5 else 0)
     - (if \<not> v_isOnline vol then 20 else 0)"

section \<open>Invariants\<close>

text \<open>The invariant of the rooms map: a room that is in the map has a participant, and no
  room carries a call id (nothing in the relay ever assigns \<open>room.callId\<close>).\<close>

definition rooms_inv :: "relay \<Rightarrow> bool" where
  "rooms_inv s = (\<forall>rid rm. rooms s rid = Some rm \<longrightarrow> participants rm \<noteq> [] \<and> r_callId rm = None)"

text \<open>The invariant of the update log: no invocation of \<open>updateCall\<close> by the relay
  names a call.\<close>

definition updates_inv :: "relay \<Rightarrow> bool" where
  "updates_inv s = (\<forall>u \<in> set (callUpdates s). fst u = None)"

text \<open>The invariant of the queue: a transaction that waits in the queue or has been
  completed has fewer than \<open>maxRetries\<close> retries, and one in the failed map has exactly
  \<open>maxRetries\<close>.\<close>

definition retry_inv :: "blockchain \<Rightarrow> bool" where
  "retry_inv s = ((\<forall>tx \<in> set (transactionQueue s). t_retryCount tx < maxRetries)
      \<and> (\<forall>p \<in> set (failedTransactions s). t_retryCount (snd p) = maxRetries)
      \<and> (\<forall>tx \<in> set (completedTransactions s). t_retryCount tx < maxRetries))"

section \<open>Signaling relay: proofs\<close>

lemma sendMessage_fields [simp]:
  "rooms (sendMessage cid m s) = rooms s"
  "connections (sendMessage cid m s) = connections s"
  "callUpdates (sendMessage cid m s) = callUpdates s"
  by (auto simp: sendMessage_def split: option.splits)

lemma sendError_fields [simp]:
  "rooms (sendError cid e s) = rooms s"
  "connections (sendError cid e s) = connections s"
  "callUpdates (sendError cid e s) = callUpdates s"
  by (simp_all add: sendError_def)

lemma fold_sendMessage_fields:
  "rooms (fold (\<lambda>p acc. if p_connectionId (snd p) \<noteq> x
                         then sendMessage (p_connectionId (snd p)) m acc else acc) ps s) = rooms s
   \<and> connections (fold (\<lambda>p acc. if p_connectionId (snd p) \<noteq> x
                         then sendMessage (p_connectionId (snd p)) m acc else acc) ps s)
       = connections s
   \<and> callUpdates (fold (\<lambda>p acc. if p_connectionId (snd p) \<noteq> x
                         then sendMessage (p_connectionId (snd p)) m acc else acc) ps s)
       = callUpdates s"
  by (induction ps arbitrary: s) auto

lemma broadcastToRoom_fields [simp]:
  "rooms (broadcastToRoom rid m x s) = rooms s"
  "connections (broadcastToRoom rid m x s) = connections s"
  "callUpdates (broadcastToRoom rid m x s) = callUpdates s"
  by (auto simp: broadcastToRoom_def fold_sendMessage_fields split: option.splits)

lemma rooms_inv_send [simp]:
  "rooms_inv (sendMessage cid m s) = rooms_inv s"
  "rooms_inv (sendError cid e s) = rooms_inv s"
  by (simp_all add: rooms_inv_def)

lemma alist_update_nonempty: "AList.update k v ps \<noteq> []"
  by (cases ps) auto

lemma rooms_inv_leave: "rooms_inv s \<Longrightarrow> rooms_inv (handleLeaveRoom cid s)"
  by (auto simp: rooms_inv_def handleLeaveRoom_def Let_def split: option.splits if_splits)

lemma rooms_inv_join: "rooms_inv s \<Longrightarrow> rooms_inv (handleJoinRoom cid r u t now s)"
  using rooms_inv_leave [of s cid]
  by (auto simp: rooms_inv_def handleJoinRoom_def Let_def alist_update_nonempty
      split: option.splits if_splits)

lemma rooms_inv_relay: "rooms_inv s \<Longrightarrow> rooms_inv (relayToTarget w mk cid p t s)"
  by (auto simp: rooms_inv_def relayToTarget_def split: option.splits)

lemma rooms_inv_status: "rooms_inv s \<Longrightarrow> rooms_inv (handleCallStatus cid st rs s)"
  by (auto simp: rooms_inv_def handleCallStatus_def Let_def split: option.splits if_splits)

lemma rooms_inv_disconnection: "rooms_inv s \<Longrightarrow> rooms_inv (handleDisconnection cid s)"
  by (auto simp: rooms_inv_def handleDisconnection_def Let_def split: option.splits if_splits)

lemma rooms_inv_message: "rooms_inv s \<Longrightarrow> rooms_inv (handleMessage cid req now s)"
  by (cases req)
     (auto simp: handleMessage_def handleOffer_def handleAnswer_def handleIceCandidate_def
        rooms_inv_join rooms_inv_leave rooms_inv_relay rooms_inv_status
        split: option.splits)

lemma rooms_inv_timers:
  "rooms_inv s \<Longrightarrow> rooms_inv (handleConnection now s)"
  "rooms_inv s \<Longrightarrow> rooms_inv (heartbeat cid s)"
  "rooms_inv s \<Longrightarrow> rooms_inv (pong cid s)"
  "rooms_inv s \<Longrightarrow> rooms_inv (socketClosing cid s)"
  "rooms_inv s \<Longrightarrow> rooms_inv (cleanup now s)"
  by (auto simp: rooms_inv_def handleConnection_def heartbeat_def pong_def socketClosing_def
       cleanup_def Let_def split: option.splits if_splits)

lemma rooms_inv_reachable: "relay_reachable s \<Longrightarrow> rooms_inv s"
  by (induction rule: relay_reachable.induct)
     (simp_all add: rooms_inv_message rooms_inv_disconnection rooms_inv_timers,
      simp add: rooms_inv_def relay_init_def)

lemma room_callId_undefined:
  "relay_reachable s \<Longrightarrow> rooms s rid = Some rm \<Longrightarrow> r_callId rm = None"
  using rooms_inv_reachable [of s] by (simp add: rooms_inv_def)

lemmas relay_defs = handleMessage_def handleJoinRoom_def handleLeaveRoom_def handleConnection_def
  handleCallStatus_def handleDisconnection_def sendMessage_def sendError_def broadcastToRoom_def
  relay_init_def deleteParticipant_def Let_def disconnectedText_def reasonOrDefault_def

lemma oneJoined_reachable: "relay_reachable oneJoined"
  unfolding oneJoined_def by (intro relay_reachable.intros)

lemma twoJoined_reachable: "relay_reachable twoJoined"
  unfolding twoJoined_def by (intro relay_reachable.intros)

lemma activeRoom_reachable: "relay_reachable activeRoom"
  unfolding activeRoom_def by (intro relay_reachable.intros twoJoined_reachable)

lemma threeJoined_reachable: "relay_reachable threeJoined"
  unfolding threeJoined_def by (intro relay_reachable.intros twoJoined_reachable)

lemma activeRoom_connection:
  "connections activeRoom 1 = Some \<lparr>c_userId = Some ''blind1'', c_userType = Some ''blind'',
     c_roomId = Some ''room1'', c_connectedAt = 1, c_isAlive = True, c_socketOpen = True\<rparr>"
  by (simp add: activeRoom_def twoJoined_def relay_defs)

lemma activeRoom_room:
  "map_option (\<lambda>rm. (r_status rm, map fst (participants rm), r_callId rm))
     (rooms activeRoom ''room1'') = Some (''active'', [''blind1'', ''vol1''], None)"
  by (simp add: activeRoom_def twoJoined_def relay_defs)

lemma activeRoom_callUpdates: "callUpdates activeRoom = []"
  by (simp add: activeRoom_def twoJoined_def relay_defs)

text \<open>
  Claim C1. A connection that disconnects while it is a participant of a room whose status
  is \<open>active\<close> should leave the call of that room marked failed, and the remaining
  participant should receive \<open>user_disconnected\<close>. In the code, the handler sets the
  status of a room that still has a participant to \<open>waiting\<close> before it tests the
  status for \<open>active\<close>, so with a remaining participant \<open>updateCall\<close> is never
  invoked. Evaluated here: the blind user and the volunteer are in \<open>room1\<close>, its status
  is \<open>active\<close>, and the blind user's connection is lost. The volunteer's connection
  receives \<open>user_disconnected\<close>, the room goes back to \<open>waiting\<close>, and the list of
  call updates is as empty as before.
\<close>

theorem disconnect_with_peer_no_call_update:
  "relay_reachable activeRoom
   \<and> map_option r_status (rooms activeRoom ''room1'') = Some ''active''
   \<and> (2, UserDisconnected (Some ''blind1'') (Some ''blind'') ''Connection lost'')
        \<in> set (sent (handleDisconnection 1 activeRoom))
   \<and> map_option r_status (rooms (handleDisconnection 1 activeRoom) ''room1'') = Some ''waiting''
   \<and> callUpdates activeRoom = []
   \<and> callUpdates (handleDisconnection 1 activeRoom) = []"
proof -
  have "map_option r_status (rooms activeRoom ''room1'') = Some ''active''"
    by (simp add: activeRoom_def twoJoined_def relay_defs)
  moreover have "(2, UserDisconnected (Some ''blind1'') (Some ''blind'') ''Connection lost'')
        \<in> set (sent (handleDisconnection 1 activeRoom))"
    by (simp add: activeRoom_def twoJoined_def relay_defs)
  moreover have "map_option r_status (rooms (handleDisconnection 1 activeRoom) ''room1'')
        = Some ''waiting''"
    by (simp add: activeRoom_def twoJoined_def relay_defs)
  moreover have "callUpdates (handleDisconnection 1 activeRoom) = []"
    by (simp add: activeRoom_def twoJoined_def relay_defs)
  ultimately show ?thesis using activeRoom_reachable activeRoom_callUpdates by simp
qed

text \<open>
  Claim C4, as amended. In every reachable state of the relay, every room in the rooms map
  has at least one participant, and a removal (by \<open>leave_room\<close> or by a disconnect) that
  empties the participant map deletes the room from the rooms map in the same step. The
  code sets no upper bound: a join under a third user id is admitted (see
  \<open>third_participant_admitted\<close>).
\<close>

theorem rooms_never_empty:
  assumes "relay_reachable s"
  shows "(\<forall>rid rm. rooms s rid = Some rm \<longrightarrow> 1 \<le> length (participants rm))
       \<and> (\<forall>cid ci rid rm. connections s cid = Some ci \<and> c_roomId ci = Some rid
              \<and> rooms s rid = Some rm
              \<and> deleteParticipant (c_userId ci) (participants rm) = []
            \<longrightarrow> rooms (handleLeaveRoom cid s) rid = None
                \<and> rooms (handleDisconnection cid s) rid = None)"
proof -
  have inv: "rooms_inv s" using assms by (rule rooms_inv_reachable)
  have 1: "\<forall>rid rm. rooms s rid = Some rm \<longrightarrow> 1 \<le> length (participants rm)"
  proof (intro allI impI)
    fix rid rm assume "rooms s rid = Some rm"
    with inv have "participants rm \<noteq> []" by (simp add: rooms_inv_def)
    then show "1 \<le> length (participants rm)" by (cases "participants rm") simp_all
  qed
  have 2: "\<forall>cid ci rid rm. connections s cid = Some ci \<and> c_roomId ci = Some rid
              \<and> rooms s rid = Some rm
              \<and> deleteParticipant (c_userId ci) (participants rm) = []
            \<longrightarrow> rooms (handleLeaveRoom cid s) rid = None
                \<and> rooms (handleDisconnection cid s) rid = None"
    by (simp add: handleLeaveRoom_def handleDisconnection_def Let_def)
  show ?thesis using 1 2 by blast
qed

theorem rooms_never_empty_witness:
  "relay_reachable oneJoined
   \<and> map_option (\<lambda>rm. length (participants rm)) (rooms oneJoined ''room1'') = Some 1
   \<and> rooms (handleLeaveRoom 1 oneJoined) ''room1'' = None
   \<and> rooms (handleDisconnection 1 oneJoined) ''room1'' = None"
proof -
  have c: "connections oneJoined 1 = Some \<lparr>c_userId = Some ''blind1'', c_userType = Some ''blind'',
     c_roomId = Some ''room1'', c_connectedAt = 1, c_isAlive = True, c_socketOpen = True\<rparr>"
    by (simp add: oneJoined_def relay_defs)
  obtain rm where r: "rooms oneJoined ''room1'' = Some rm"
    and p: "map fst (participants rm) = [''blind1'']"
    by (simp add: oneJoined_def relay_defs)
  have d: "deleteParticipant (Some ''blind1'') (participants rm) = []"
    using p by (cases "participants rm") (auto simp: deleteParticipant_def)
  from rooms_never_empty [OF oneJoined_reachable] c r d
  have "rooms (handleLeaveRoom 1 oneJoined) ''room1'' = None
        \<and> rooms (handleDisconnection 1 oneJoined) ''room1'' = None"
    by fastforce
  moreover have "length (participants rm) = 1" using p by (cases "participants rm") auto
  ultimately show ?thesis using oneJoined_reachable r by simp
qed

theorem third_participant_admitted:
  "relay_reachable threeJoined
   \<and> map_option (\<lambda>rm. map fst (participants rm)) (rooms threeJoined ''room1'')
       = Some [''blind1'', ''vol1'', ''vol2'']
   \<and> map_option (\<lambda>rm. length (participants rm)) (rooms threeJoined ''room1'') = Some 3"
proof -
  have "map_option (\<lambda>rm. map fst (participants rm)) (rooms threeJoined ''room1'')
       = Some [''blind1'', ''vol1'', ''vol2'']"
    by (simp add: threeJoined_def twoJoined_def relay_defs)
  moreover from this
  have "map_option (\<lambda>rm. length (participants rm)) (rooms threeJoined ''room1'') = Some 3"
    by (cases "rooms threeJoined ''room1''") (auto dest: arg_cong [where f = length])
  ultimately show ?thesis using threeJoined_reachable by simp
qed

text \<open>What \<open>handleCallStatus\<close> hands to \<open>updateCall\<close>: nothing for a status
  that is not terminal, else the status \<open>failed\<close> for \<open>failed\<close> and \<open>ended\<close>
  and \<open>completed\<close> for \<open>completed\<close>, under the call id of the room.\<close>

lemma handleCallStatus_callUpdates:
  assumes "connections s cid = Some ci" and "c_roomId ci = Some rid"
    and "rooms s rid = Some rm" and "status \<noteq> []"
  shows "callUpdates (handleCallStatus cid status reason s) =
           callUpdates s @
             (if status \<in> set [''completed'', ''failed'', ''ended'']
              then [(r_callId rm, \<lparr>u_status = (if status = ''completed'' then ''completed''
                                                else ''failed''),
                                   u_feedbackText = reasonOrDefault reason\<rparr>)]
              else [])"
  using assms by (simp add: handleCallStatus_def Let_def)

lemma callUpdates_leave [simp]: "callUpdates (handleLeaveRoom cid s) = callUpdates s"
  by (simp add: handleLeaveRoom_def Let_def split: option.splits)

lemma callUpdates_join [simp]: "callUpdates (handleJoinRoom cid r u t now s) = callUpdates s"
  by (simp add: handleJoinRoom_def Let_def split: option.splits)

lemma callUpdates_relay [simp]: "callUpdates (relayToTarget w mk cid p t s) = callUpdates s"
  by (simp add: relayToTarget_def split: option.splits)

lemma callUpdates_timers [simp]:
  "callUpdates (handleConnection now s) = callUpdates s"
  "callUpdates (heartbeat cid s) = callUpdates s"
  "callUpdates (pong cid s) = callUpdates s"
  "callUpdates (socketClosing cid s) = callUpdates s"
  "callUpdates (cleanup now s) = callUpdates s"
  by (simp_all add: handleConnection_def heartbeat_def pong_def socketClosing_def
       cleanup_def Let_def split: option.splits)

lemma updates_inv_status:
  "rooms_inv s \<Longrightarrow> updates_inv s \<Longrightarrow> updates_inv (handleCallStatus cid st rs s)"
  by (auto simp: rooms_inv_def updates_inv_def handleCallStatus_def Let_def
      split: option.splits if_splits)

lemma updates_inv_disconnection:
  "rooms_inv s \<Longrightarrow> updates_inv s \<Longrightarrow> updates_inv (handleDisconnection cid s)"
  by (auto simp: rooms_inv_def updates_inv_def handleDisconnection_def Let_def
      split: option.splits if_splits)

lemma updates_inv_message:
  "rooms_inv s \<Longrightarrow> updates_inv s \<Longrightarrow> updates_inv (handleMessage cid req now s)"
  by (cases req)
     (auto simp: handleMessage_def handleOffer_def handleAnswer_def handleIceCandidate_def
        updates_inv_status updates_inv_def [of "sendMessage _ _ _"]
        updates_inv_def [of "sendError _ _ _"] updates_inv_def [of "handleJoinRoom _ _ _ _ _ _"]
        updates_inv_def [of "handleLeaveRoom _ _"] updates_inv_def [of "relayToTarget _ _ _ _ _ _"]
        updates_inv_def [of s]
        split: option.splits)

text \<open>In every reachable state, every invocation of \<open>updateCall\<close> that the relay has made
  was given \<open>undefined\<close> as the call id.\<close>

lemma callUpdates_undefined:
  "relay_reachable s \<Longrightarrow> \<forall>u \<in> set (callUpdates s). fst u = None"
proof -
  assume r: "relay_reachable s"
  then have "rooms_inv s \<and> updates_inv s"
  proof (induction rule: relay_reachable.induct)
    case rr_init
    then show ?case by (simp add: rooms_inv_def updates_inv_def relay_init_def)
  next
    case (rr_message s cid req now)
    then show ?case by (simp add: rooms_inv_message updates_inv_message)
  next
    case (rr_disconnection s cid)
    then show ?case by (simp add: rooms_inv_disconnection updates_inv_disconnection)
  qed (simp_all add: rooms_inv_timers updates_inv_def)
  then show ?thesis by (simp add: updates_inv_def)
qed

text \<open>
  Claim C10. A participant's \<open>call_status\<close> with a terminal status should update the
  call record of the room: to \<open>failed\<close> for \<open>failed\<close> and \<open>ended\<close>, to
  \<open>completed\<close> only for \<open>completed\<close>. The handler does map the status this way, but
  it addresses the update to \<open>room.callId\<close>, a field that no code of the relay assigns:
  \<open>handleJoinRoom\<close> creates a room with an id, a participant map, a creation time and
  a status. Evaluated here: in the room of the blind user and the volunteer, the blind user
  reports \<open>ended\<close>, or \<open>completed\<close>. The room has no call id, and the one
  invocation of \<open>updateCall\<close> carries the mapped status and \<open>undefined\<close> as the
  call id, so it reaches no call record.
\<close>

theorem call_status_update_without_call_id:
  "relay_reachable activeRoom
   \<and> map_option r_callId (rooms activeRoom ''room1'') = Some None
   \<and> callUpdates activeRoom = []
   \<and> callUpdates (handleCallStatus 1 ''ended'' None activeRoom) =
       [(None, \<lparr>u_status = ''failed'', u_feedbackText = ''Call ended via WebRTC''\<rparr>)]
   \<and> callUpdates (handleCallStatus 1 ''completed'' (Some ''done'') activeRoom) =
       [(None, \<lparr>u_status = ''completed'', u_feedbackText = ''done''\<rparr>)]"
proof -
  obtain rm where r: "rooms activeRoom ''room1'' = Some rm" and n: "r_callId rm = None"
    using activeRoom_room by (cases "rooms activeRoom ''room1''") auto
  show ?thesis
    using handleCallStatus_callUpdates [OF activeRoom_connection _ r, of "''ended''" None]
      handleCallStatus_callUpdates [OF activeRoom_connection _ r, of "''completed''" "Some ''done''"]
      r n activeRoom_callUpdates activeRoom_reachable
    by (simp add: reasonOrDefault_def)
qed


section \<open>Reward queue: proofs\<close>

lemma set_alist_update: "p \<in> set (AList.update k v al) \<Longrightarrow> p = (k, v) \<or> p \<in> set al"
  by (induction al) (auto split: if_splits)

lemma retry_inv_start: "retry_inv s \<Longrightarrow> retry_inv (processTransactionQueue s)"
  by (simp add: retry_inv_def processTransactionQueue_def)

lemma retry_inv_retryOrFail:
  "retry_inv s \<Longrightarrow> t_retryCount tx < maxRetries \<Longrightarrow> retry_inv (retryOrFail tx s)"
  by (auto simp: retry_inv_def retryOrFail_def Let_def dest!: set_alist_update)

lemma retry_inv_next:
  assumes inv: "retry_inv s"
  shows "retry_inv (processNextTransaction env s)"
proof (cases "isProcessingQueue s")
  case False
  then show ?thesis using inv by (simp add: processNextTransaction_def)
next
  case True
  show ?thesis
  proof (cases "transactionQueue s")
    case Nil
    then show ?thesis using inv True by (simp add: processNextTransaction_def retry_inv_def)
  next
    case (Cons tx rest)
    let ?s1 = "s\<lparr>transactionQueue := rest\<rparr>"
    have a: "retry_inv ?s1" using inv Cons by (simp add: retry_inv_def)
    have c: "t_retryCount tx < maxRetries" using inv Cons by (simp add: retry_inv_def)
    have r: "retry_inv (retryOrFail t ?s1)" if "t_retryCount t = t_retryCount tx" for t
      using retry_inv_retryOrFail [OF a, of t] c that by simp
    have d: "retry_inv (?s1\<lparr>completedTransactions := completedTransactions ?s1 @ [t]\<rparr>)"
      if "t_retryCount t = t_retryCount tx" for t
      using a c that by (simp add: retry_inv_def)
    show ?thesis using True Cons r d
      by (simp add: processNextTransaction_def Let_def split: option.splits)
  qed
qed

lemma retry_inv_queue:
  "retry_inv s \<Longrightarrow> queueRewardTransaction u a r c t i n s = Inr (x, s') \<Longrightarrow> retry_inv s'"
  by (auto simp: queueRewardTransaction_def retry_inv_def processTransactionQueue_def
        maxRetries_def Let_def split: option.splits if_splits)

lemma retry_inv_users: "retry_inv (s\<lparr>users := X\<rparr>) = retry_inv s"
  by (simp add: retry_inv_def)

lemma retry_inv_calls: "retry_inv (s\<lparr>calls := X\<rparr>) = retry_inv s"
  by (simp add: retry_inv_def)

lemma retry_inv_reputation:
  "retry_inv s \<Longrightarrow> updateUserReputation u n s = Inr s' \<Longrightarrow> retry_inv s'"
  by (auto simp: updateUserReputation_def retry_inv_def split: option.splits if_splits)

text \<open>\<open>processCompletedCall\<close> is a chain of steps, each of which may raise. A property of
  states that every step keeps holds for the state the method ends in, wherever it ends.\<close>

lemma processCompletedCall_keeps:
  assumes P: "P s"
    and PQ: "\<And>s. P s \<Longrightarrow> Q s"
    and completion: "\<And>s u a r t x s'. P s \<Longrightarrow>
          queueRewardTransaction u a r (Some c) ''call_completion'' t n s = Inr (x, s') \<Longrightarrow> Q s'"
    and milestone: "\<And>s u a r t x s'. Q s \<Longrightarrow>
          queueRewardTransaction u a r (Some c) ''milestone'' t n s = Inr (x, s') \<Longrightarrow> Q s'"
    and usr: "\<And>s X. Q s \<Longrightarrow> Q (s\<lparr>users := X\<rparr>)"
  shows "Q (snd (processCompletedCall c t1 t2 n s))"
proof (cases "calls s c")
  case None
  then show ?thesis using PQ [OF P] by (simp add: processCompletedCall_def)
next
  case (Some cd)
  show ?thesis
  proof (cases "cd_status cd = ''completed''")
    case False
    then show ?thesis using PQ [OF P] Some by (simp add: processCompletedCall_def)
  next
    case True
    let ?q1 = "queueRewardTransaction (cd_volunteerUserId cd) (calculateRewardAmount cd)
                 (''Completed '' @ showMinutes (cd_durationSeconds cd) @ ''-minute call'')
                 (Some c) ''call_completion'' t1 n s"
    show ?thesis
    proof (cases ?q1)
      case (Inl e)
      then show ?thesis using PQ [OF P] Some True
        by (simp add: processCompletedCall_def Let_def)
    next
      case (Inr r1)
      obtain x1 s1 where r1: "r1 = (x1, s1)" by (cases r1)
      have i1: "Q s1" using completion [OF P] Inr r1 by blast
      let ?m = "calculateMilestoneReward (cd_volunteerUserId cd) s1"
      let ?q2 = "case ?m of
                   None \<Rightarrow> Inr ([], s1)
                 | Some m \<Rightarrow>
                     if fst m > 0
                     then queueRewardTransaction (cd_volunteerUserId cd) (fst m) (snd m)
                            (Some c) ''milestone'' t2 n s1
                     else Inr ([], s1)"
      show ?thesis
      proof (cases ?q2)
        case (Inl e)
        then show ?thesis using i1 Some True Inr r1
          by (simp add: processCompletedCall_def Let_def)
      next
        case q2: (Inr r2)
        obtain x2 s2 where r2: "r2 = (x2, s2)" by (cases r2)
        have i2: "Q s2"
        proof (cases ?m)
          case None
          then show ?thesis using i1 q2 r2 by simp
        next
          case (Some m)
          show ?thesis
          proof (cases "fst m > 0")
            case True
            then show ?thesis using milestone [OF i1] q2 r2 Some by auto
          next
            case False
            then show ?thesis using i1 q2 r2 Some by simp
          qed
        qed
        show ?thesis
        proof (cases "users s2 (cd_volunteerUserId cd)")
          case None
          then show ?thesis using i2 Some True Inr r1 q2 r2
            by (simp add: processCompletedCall_def Let_def)
        next
          case u: (Some u)
          let ?s3 = "s2\<lparr>users := (users s2)(cd_volunteerUserId cd \<mapsto>
                        u\<lparr>usr_totalCalls := addOpt (cd_totalCalls cd) (Some 1),
                          usr_totalHelpMinutes := addOpt (cd_totalHelpMinutes cd)
                                                    (ceilMinutes (cd_durationSeconds cd)),
                          usr_lastActiveCall := Some c\<rparr>)\<rparr>"
          have i3: "Q ?s3" using i2 by (rule usr)
          show ?thesis
          proof (cases "updateUserReputation (cd_volunteerUserId cd)
                          (map_option (\<lambda>r. r + 10) (cd_reputationScore cd)) ?s3")
            case (Inl e)
            then show ?thesis using i3 Some True Inr r1 q2 r2 u
              by (simp add: processCompletedCall_def Let_def)
          next
            case r4: (Inr s4)
            have "\<exists>X. s4 = ?s3\<lparr>users := X\<rparr>" using r4
              by (auto simp: updateUserReputation_def split: option.splits if_splits)
            then have "Q s4" using usr [OF i3] by auto
            then show ?thesis using Some True Inr r1 q2 r2 u r4
              by (simp add: processCompletedCall_def Let_def)
          qed
        qed
      qed
    qed
  qed
qed

lemma retry_inv_completed:
  "retry_inv s \<Longrightarrow> retry_inv (snd (processCompletedCall c t1 t2 n s))"
  by (rule processCompletedCall_keeps [where P = retry_inv])
     (auto simp: retry_inv_users dest: retry_inv_queue)

lemma retryable_empty:
  "retry_inv s \<Longrightarrow>
   filter (\<lambda>tx. t_retryCount tx < maxRetries) (map snd (failedTransactions s)) = []"
  by (auto simp: retry_inv_def filter_empty_conv)

lemma retry_inv_retryFailed: "retry_inv s \<Longrightarrow> retry_inv (snd (retryFailedTransactions s))"
  by (simp add: retryFailedTransactions_def retryable_empty retry_inv_start)

lemma retry_inv_step:
  assumes inv: "retry_inv s"
  shows "retry_inv (queueStep ev s)"
proof (cases ev)
  case (QueueReward u a r cid ty t n)
  show ?thesis
  proof (cases "queueRewardTransaction u a r cid ty t n s")
    case (Inl e)
    then show ?thesis using inv QueueReward by (simp add: queueStep_def)
  next
    case (Inr p)
    obtain x s' where p: "p = (x, s')" by (cases p)
    have "retry_inv s'" using retry_inv_queue [OF inv] Inr p by blast
    then show ?thesis using QueueReward Inr p by (simp add: queueStep_def)
  qed
next
  case (ProcessCompletedCall c t1 t2 n)
  then show ?thesis using retry_inv_completed [OF inv] by (simp add: queueStep_def)
next
  case ProcessTimer
  then show ?thesis using retry_inv_start [OF inv] by (simp add: queueStep_def)
next
  case (ProcessNext env)
  then show ?thesis using retry_inv_next [OF inv] by (simp add: queueStep_def)
next
  case RetryFailed
  then show ?thesis using retry_inv_retryFailed [OF inv] by (simp add: queueStep_def)
next
  case (WriteUser u d)
  then show ?thesis using inv by (simp add: queueStep_def retry_inv_users)
next
  case (WriteCall u d)
  then show ?thesis using inv by (simp add: queueStep_def retry_inv_calls)
qed

lemma retry_inv_run: "retry_inv s \<Longrightarrow> retry_inv (queueRun evs s)"
  unfolding queueRun_def by (induction evs arbitrary: s) (simp_all add: retry_inv_step)

lemma retry_inv_init: "retry_inv (blockchain_init keypair valid)"
  by (simp add: retry_inv_def blockchain_init_def)

lemma retry_inv_reachable: "queue_reachable s \<Longrightarrow> retry_inv s"
  by (auto simp: queue_reachable_def intro: retry_inv_run retry_inv_init)

lemma queue_reachable_run: "queue_reachable (queueRun evs (blockchain_init keypair valid))"
  by (auto simp: queue_reachable_def)

lemmas queue_defs = queueRun_def queueStep_def queue_start_def blockchain_init_def
  queueRewardTransaction_def processTransactionQueue_def processNextTransaction_def
  retryOrFail_def maxRetries_def volunteerDoc_def completedCallDoc_def lowBalance_def paid_def
  processCompletedCall_def calculateRewardAmount_def calculateMilestoneReward_def
  updateUserReputation_def addOpt_def ceilMinutes_def showMinutes_def shortCall_def Let_def

lemma failedTwice_state:
  "transactionQueue failedTwice =
     [\<lparr>t_id = ''tx1'', t_userId = ''vol1'', t_walletAddress = ''wallet1'', t_amount = 1 / 100,
       t_reason = ''bonus'', t_callId = None, t_type = ''bonus'', t_status = ''queued'',
       t_createdAt = 0, t_retryCount = 2, t_signature = None\<rparr>]"
  "isProcessingQueue failedTwice"
  "failedTransactions failedTwice = []"
  "completedTransactions failedTwice = []"
  by (simp_all add: failedTwice_def queue_defs)

lemma failedThrice_state:
  "transactionQueue failedThrice = []"
  "failedTransactions failedThrice =
     [(''tx1'', \<lparr>t_id = ''tx1'', t_userId = ''vol1'', t_walletAddress = ''wallet1'',
        t_amount = 1 / 100, t_reason = ''bonus'', t_callId = None, t_type = ''bonus'',
        t_status = ''queued'', t_createdAt = 0, t_retryCount = 3, t_signature = None\<rparr>)]"
  by (simp_all add: failedThrice_def queue_defs)

lemma failedTwice_reachable: "queue_reachable failedTwice"
  unfolding failedTwice_def queue_start_def by (rule queue_reachable_run)

lemma failedThrice_reachable: "queue_reachable failedThrice"
  unfolding failedThrice_def queue_start_def by (rule queue_reachable_run)

text \<open>
  Claim C2. Processing the tenth completed call of a volunteer should queue one milestone
  reward of the amount \<open>calls10\<close>. In the code, \<open>processCompletedCall\<close> asks
  \<open>calculateMilestoneReward\<close> before it updates the call count, and the update writes
  \<open>callData.totalCalls + 1\<close>, read from the call document, which has no such field.
  Evaluated here: the volunteer has nine calls on record and the tenth, \<open>call10\<close>, is
  processed. The method succeeds with a milestone amount of 0, the only transaction queued is
  the completion reward, and the count stored afterwards is not a number.
\<close>

theorem tenth_call_queues_no_milestone:
  "map_option usr_totalCalls (users nineCalls ''vol1'') = Some (Some 9)
   \<and> fst (processCompletedCall ''call10'' ''tx1'' ''tx2'' 10 nineCalls)
       = Inr \<lparr>rs_callCompletion = 1 / 100, rs_milestone = Some 0, rs_total = Some (1 / 100)\<rparr>
   \<and> map t_type
        (transactionQueue (snd (processCompletedCall ''call10'' ''tx1'' ''tx2'' 10 nineCalls)))
       = [''call_completion'']
   \<and> map_option usr_totalCalls
        (users (snd (processCompletedCall ''call10'' ''tx1'' ''tx2'' 10 nineCalls)) ''vol1'')
       = Some None"
  by (simp add: nineCalls_def queue_defs)

lemma processedTwice_completed:
  "map t_id (completedTransactions (queueRun processedTwice queue_start)) = [''tx1'', ''tx3'']"
  "map t_callId (completedTransactions (queueRun processedTwice queue_start))
     = [Some ''call1'', Some ''call1'']"
  "map t_type (completedTransactions (queueRun processedTwice queue_start))
     = [''call_completion'', ''call_completion'']"
  "map t_status (completedTransactions (queueRun processedTwice queue_start))
     = [''completed'', ''completed'']"
  by (simp_all add: processedTwice_def queue_defs)


text \<open>
  Claim C5. A call should give at most one completed completion reward, however often it is
  processed. In the code, neither \<open>processCompletedCall\<close> nor
  \<open>queueRewardTransaction\<close> looks for an earlier reward of the same call (of the two
  routes that process a call, only the one that ends it tests that the call was not
  completed before). Evaluated here: the completed call \<open>call1\<close> is processed twice
  and the funded ledger pays both queued transactions. Two transactions with call id
  \<open>call1\<close> and type \<open>call_completion\<close> end with status \<open>completed\<close>.
\<close>

theorem same_call_completed_twice:
  "queue_reachable (queueRun processedTwice queue_start)
   \<and> map t_id (completedTransactions (queueRun processedTwice queue_start)) = [''tx1'', ''tx3'']
   \<and> map t_callId (completedTransactions (queueRun processedTwice queue_start))
       = [Some ''call1'', Some ''call1'']
   \<and> map t_type (completedTransactions (queueRun processedTwice queue_start))
       = [''call_completion'', ''call_completion'']
   \<and> map t_status (completedTransactions (queueRun processedTwice queue_start))
       = [''completed'', ''completed'']"
  using processedTwice_completed queue_reachable_run [of processedTwice True "\<lambda>w. True"]
  by (simp add: queue_start_def)

text \<open>
  Claim C7. In every reachable state of the reward queue no transaction has more than
  \<open>maxRetries\<close> = 3 retries: fewer than 3 while it waits in the queue, at most 3 in the
  failed map. A pass of the consumer loop over a transaction that has 2 retries never puts
  it back into the queue: unless the pass completes it, the transaction is in the failed
  map afterwards, with 3 retries.
\<close>

theorem retry_ceiling:
  assumes "queue_reachable s"
  shows "(\<forall>tx \<in> set (transactionQueue s). t_retryCount tx < maxRetries)
       \<and> (\<forall>p \<in> set (failedTransactions s). t_retryCount (snd p) \<le> maxRetries)
       \<and> (\<forall>tx \<in> set (completedTransactions s). t_retryCount tx \<le> maxRetries)
       \<and> maxRetries = 3
       \<and> (\<forall>tx rest env. isProcessingQueue s \<and> transactionQueue s = tx # rest
              \<and> t_retryCount tx + 1 = maxRetries \<longrightarrow>
            transactionQueue (processNextTransaction env s) = rest
            \<and> (completedTransactions (processNextTransaction env s) = completedTransactions s
                 \<longrightarrow> (\<exists>tx'. map_of (failedTransactions (processNextTransaction env s)) (t_id tx)
                               = Some tx'
                          \<and> t_retryCount tx' = maxRetries)))"
proof -
  have inv: "retry_inv s" using assms by (rule retry_inv_reachable)
  have m: "\<And>tx rest env. isProcessingQueue s \<Longrightarrow> transactionQueue s = tx # rest
              \<Longrightarrow> t_retryCount tx + 1 = maxRetries \<Longrightarrow>
            transactionQueue (processNextTransaction env s) = rest
            \<and> (completedTransactions (processNextTransaction env s) = completedTransactions s
                 \<longrightarrow> (\<exists>tx'. map_of (failedTransactions (processNextTransaction env s)) (t_id tx)
                               = Some tx'
                          \<and> t_retryCount tx' = maxRetries))"
    by (auto simp: processNextTransaction_def retryOrFail_def Let_def update_conv'
        split: option.splits)
  have le: "\<forall>tx \<in> set (completedTransactions s). t_retryCount tx \<le> maxRetries"
    using inv by (auto simp: retry_inv_def dest: less_imp_le)
  show ?thesis using inv m le by (simp add: retry_inv_def maxRetries_def)
qed

theorem retry_ceiling_witness:
  "queue_reachable failedTwice
   \<and> map t_retryCount (transactionQueue failedTwice) = [2]
   \<and> transactionQueue (processNextTransaction lowBalance failedTwice) = []
   \<and> map (\<lambda>p. t_retryCount (snd p))
        (failedTransactions (processNextTransaction lowBalance failedTwice)) = [3]"
proof -
  have "transactionQueue (processNextTransaction lowBalance failedTwice) = []"
    using retry_ceiling [OF failedTwice_reachable] failedTwice_state
    by (simp add: maxRetries_def)
  moreover have "map (\<lambda>p. t_retryCount (snd p))
        (failedTransactions (processNextTransaction lowBalance failedTwice)) = [3]"
    using failedTwice_state
    by (simp add: processNextTransaction_def retryOrFail_def lowBalance_def maxRetries_def Let_def)
  ultimately show ?thesis using failedTwice_reachable failedTwice_state by simp
qed

text \<open>
  Claim C9. In every reachable state every transaction in the failed map has exactly
  \<open>maxRetries\<close> retries; so \<open>retryFailedTransactions\<close>, which takes the ones with
  fewer, finds none: it returns the count 0 and leaves the queue and the failed map as
  they are.
\<close>

theorem failed_transactions_exhausted:
  assumes "queue_reachable s"
  shows "(\<forall>p \<in> set (failedTransactions s). t_retryCount (snd p) = maxRetries)
       \<and> maxRetries = 3
       \<and> fst (retryFailedTransactions s) = 0
       \<and> transactionQueue (snd (retryFailedTransactions s)) = transactionQueue s
       \<and> failedTransactions (snd (retryFailedTransactions s)) = failedTransactions s"
proof -
  have inv: "retry_inv s" using assms by (rule retry_inv_reachable)
  have e: "filter (\<lambda>tx. t_retryCount tx < maxRetries) (map snd (failedTransactions s)) = []"
    using inv by (rule retryable_empty)
  have "\<forall>p \<in> set (failedTransactions s). t_retryCount (snd p) = maxRetries"
    using inv by (simp add: retry_inv_def)
  then show ?thesis
    by (simp add: retryFailedTransactions_def e processTransactionQueue_def maxRetries_def)
qed

theorem failed_transactions_exhausted_witness:
  "queue_reachable failedThrice
   \<and> map (\<lambda>p. t_retryCount (snd p)) (failedTransactions failedThrice) = [3]
   \<and> fst (retryFailedTransactions failedThrice) = 0
   \<and> transactionQueue (snd (retryFailedTransactions failedThrice)) = []"
  using failed_transactions_exhausted [OF failedThrice_reachable] failedThrice_reachable
    failedThrice_state
  by simp

section \<open>Matching engine: proofs\<close>

lemma tryMatch_no_volunteers:
  assumes "activeVolunteers env k = []"
  shows "\<exists>e s1. tryMatch env k uid wi s = (Inl e, s1) \<and> m_users s1 = m_users s
         \<and> (clock env k \<le> w_timeout wi \<longrightarrow>
              (\<exists>u. m_users s uid = Some u \<and> usr_userType u = ''blind'') \<longrightarrow>
              e = MatchingError ''No volunteers available at the moment'')"
  using assms
  by (auto simp: tryMatch_def findBestMatch_def split: option.splits)

lemma attemptMatchFrom_retry:
  assumes "k < maxAttempts" and "tryMatch env k uid wi s = (Inl e, s1)"
  shows "attemptMatchFrom env uid wi k d s = attemptMatchFrom env uid wi (k + 1) (d + 1) s1"
  using assms by (subst attemptMatchFrom.simps) (simp del: attemptMatchFrom.simps)

lemma attemptMatchFrom_last:
  assumes "tryMatch env maxAttempts uid wi s = (Inl e, s1)"
  shows "attemptMatchFrom env uid wi maxAttempts d s
           = (Inl e, s1\<lparr>waitingQueue := (waitingQueue s1)(uid := None)\<rparr>, d)"
  using assms by (subst attemptMatchFrom.simps) (simp del: attemptMatchFrom.simps)

lemma attemptMatch_no_volunteers:
  assumes v: "activeVolunteers env 1 = []" "activeVolunteers env 2 = []"
             "activeVolunteers env 3 = []"
  shows "\<exists>e s'. attemptMatch env uid wi s = (Inl e, s', 2)
           \<and> waitingQueue s' uid = None
           \<and> (clock env 3 \<le> w_timeout wi \<longrightarrow>
                (\<exists>u. m_users s uid = Some u \<and> usr_userType u = ''blind'') \<longrightarrow>
                e = MatchingError ''No volunteers available at the moment'')"
proof -
  obtain e1 s1 where t1: "tryMatch env 1 uid wi s = (Inl e1, s1)" and u1: "m_users s1 = m_users s"
    using tryMatch_no_volunteers [OF v(1)] by blast
  obtain e2 s2 where t2: "tryMatch env 2 uid wi s1 = (Inl e2, s2)" and u2: "m_users s2 = m_users s1"
    using tryMatch_no_volunteers [OF v(2)] by blast
  obtain e3 s3 where t3: "tryMatch env 3 uid wi s2 = (Inl e3, s3)"
    and e3: "clock env 3 \<le> w_timeout wi \<longrightarrow>
              (\<exists>u. m_users s2 uid = Some u \<and> usr_userType u = ''blind'') \<longrightarrow>
              e3 = MatchingError ''No volunteers available at the moment''"
    using tryMatch_no_volunteers [OF v(3)] by blast
  have m: "maxAttempts = 3" by (simp add: maxAttempts_def)
  have a1: "attemptMatchFrom env uid wi 1 0 s = attemptMatchFrom env uid wi 2 1 s1"
    using attemptMatchFrom_retry [OF _ t1, of 0]
    by (simp add: m eval_nat_numeral del: attemptMatchFrom.simps)
  have a2: "attemptMatchFrom env uid wi 2 1 s1 = attemptMatchFrom env uid wi 3 2 s2"
    using attemptMatchFrom_retry [OF _ t2, of 1]
    by (simp add: m eval_nat_numeral del: attemptMatchFrom.simps)
  have a3: "attemptMatchFrom env uid wi 3 2 s2
              = (Inl e3, s3\<lparr>waitingQueue := (waitingQueue s3)(uid := None)\<rparr>, 2)"
    using attemptMatchFrom_last [of env uid wi s2 e3 s3 2] t3
    by (simp add: m eval_nat_numeral del: attemptMatchFrom.simps)
  show ?thesis
    unfolding attemptMatch_def a1 a2 a3 using e3 u1 u2 by simp
qed

lemmas matching_defs = startMatching_def attemptMatch_def attemptMatchFrom.simps tryMatch_def
  findBestMatch_def noVolunteersEnv_def oneVolunteerEnv_def readingVolunteer_def
  matching_users_def matching_init_def blindDoc_def volunteerDoc_def
  setVolunteerAvailability_def calculateVolunteerScore_def reputationWeight_def
  maxWaitTime_def maxAttempts_def Let_def

text \<open>
  Claim C3, as amended. When the query for available volunteers comes back empty at each of
  the three attempts, and the deadline of the request does not pass meanwhile,
  \<open>startMatching\<close> fails with the no-volunteers error, but not at once: the loop
  retries, and the error comes back after the third attempt, when the two 2-second delays
  between the attempts have been waited for. The entry of the help-seeker is then out of
  the waiting queue.
\<close>

theorem startMatching_no_volunteers_two_delays:
  assumes "activeVolunteers env 1 = []" and "activeVolunteers env 2 = []"
    and "activeVolunteers env 3 = []"
    and "waitingQueue s blindUserId = None"
    and "m_users s blindUserId = Some u" and "usr_userType u = ''blind''"
    and "clock env 3 \<le> clock env 0 + timeoutMs"
  shows "\<exists>s'. startMatching env blindUserId helpCategory priority timeoutMs s
                = (Inl (MatchingError ''No volunteers available at the moment''), s', 2)
              \<and> waitingQueue s' blindUserId = None"
proof -
  let ?wi = "\<lparr>w_userId = blindUserId, w_helpCategory = helpCategory, w_priority = priority,
              w_startTime = clock env 0, w_timeout = clock env 0 + timeoutMs,
              w_status = ''waiting''\<rparr>"
  let ?s1 = "s\<lparr>waitingQueue := (waitingQueue s)(blindUserId \<mapsto> ?wi)\<rparr>"
  from attemptMatch_no_volunteers [OF assms(1-3), of blindUserId ?wi ?s1] assms(5-7)
  obtain s' where a: "attemptMatch env blindUserId ?wi ?s1
                        = (Inl (MatchingError ''No volunteers available at the moment''), s', 2)"
    and q: "waitingQueue s' blindUserId = None"
    by auto
  show ?thesis using assms(4) a q
    by (simp add: startMatching_def Let_def)
qed

theorem startMatching_no_volunteers_two_delays_witness:
  "activeVolunteers noVolunteersEnv 1 = [] \<and> activeVolunteers noVolunteersEnv 2 = []
   \<and> activeVolunteers noVolunteersEnv 3 = []
   \<and> waitingQueue matching_users ''blind1'' = None
   \<and> m_users matching_users ''blind1'' = Some blindDoc
   \<and> clock noVolunteersEnv 3 \<le> clock noVolunteersEnv 0 + 60000
   \<and> fst (startMatching noVolunteersEnv ''blind1'' ''reading'' 7 60000 matching_users)
       = Inl (MatchingError ''No volunteers available at the moment'')
   \<and> snd (snd (startMatching noVolunteersEnv ''blind1'' ''reading'' 7 60000 matching_users)) = 2"
proof -
  have v: "activeVolunteers noVolunteersEnv 1 = []" "activeVolunteers noVolunteersEnv 2 = []"
    "activeVolunteers noVolunteersEnv 3 = []"
    by (simp_all add: noVolunteersEnv_def)
  have q: "waitingQueue matching_users ''blind1'' = None"
    by (simp add: matching_users_def matching_init_def)
  have u: "m_users matching_users ''blind1'' = Some blindDoc"
    by (simp add: matching_users_def)
  have b: "usr_userType blindDoc = ''blind''"
    by (simp add: blindDoc_def)
  have c: "clock noVolunteersEnv 3 \<le> clock noVolunteersEnv 0 + 60000"
    by (simp add: noVolunteersEnv_def)
  from startMatching_no_volunteers_two_delays [OF v q u b c, of "''reading''" 7]
  show ?thesis using v q u c by auto
qed

theorem startMatching_no_volunteers_not_immediate:
  "activeVolunteers noVolunteersEnv 1 = [] \<and> activeVolunteers noVolunteersEnv 2 = []
   \<and> activeVolunteers noVolunteersEnv 3 = []
   \<and> fst (startMatching noVolunteersEnv ''blind1'' ''general'' 5 maxWaitTime matching_users)
       = Inl (MatchingError ''No volunteers available at the moment'')
   \<and> snd (snd (startMatching noVolunteersEnv ''blind1'' ''general'' 5 maxWaitTime matching_users))
       = 2"
  by (simp add: matching_defs)

text \<open>
  Claim C6, as amended. \<open>calculateVolunteerScore\<close> returns the sum of the specification
  floored at 0 (\<open>Math.max(score, 0)\<close>), for every volunteer whose recorded average
  response time is not 0 (a zero average earns no bonus in the code). For an online
  volunteer with reputation 100, idle for one hour, with no call today, a matching skill
  and no recorded response time, the score is 22.
\<close>

theorem calculateVolunteerScore_floored:
  assumes "v_averageResponseTime vol \<noteq> Some 0"
  shows "calculateVolunteerScore s now vol helpCategory priority
           = max (claimedVolunteerScore s now vol helpCategory) 0
       \<and> (v_reputationScore vol = 100
            \<and> now - (case volunteerLastCall s (v_id vol) of None \<Rightarrow> 0 | Some t \<Rightarrow> t) = 3600000
            \<and> callCount s (v_id vol) = None
            \<and> v_skills vol = Some sk \<and> helpCategory \<in> set sk
            \<and> v_averageResponseTime vol = None \<and> v_isOnline vol
          \<longrightarrow> calculateVolunteerScore s now vol helpCategory priority = 22)"
proof -
  define A where "A = v_reputationScore vol * reputationWeight"
  define B where "B = min (of_int (now - (case volunteerLastCall s (v_id vol) of
                             None \<Rightarrow> 0 | Some t \<Rightarrow> t)) / (1000 * 60 * 60) * 2) (10::rat)"
  define C where "C = min (of_nat (case callCount s (v_id vol) of None \<Rightarrow> 0 | Some c \<Rightarrow> c) * 1)
                        (5::rat)"
  define k where "k = (\<exists>sk. v_skills vol = Some sk \<and> helpCategory \<in> set sk)"
  define f where "f = (\<exists>t. v_averageResponseTime vol = Some t \<and> t < 30000)"
  have s3: "(case v_skills vol of None \<Rightarrow> A + B - C
             | Some sk \<Rightarrow> if helpCategory \<in> set sk then A + B - C + 10 else A + B - C)
            = A + B - C + (if k then 10 else 0)"
    by (cases "v_skills vol") (simp_all add: k_def)
  have s4: "(case v_averageResponseTime vol of None \<Rightarrow> X
             | Some t \<Rightarrow> if t \<noteq> 0 \<and> t < 30000 then X + 5 else X)
            = X + (if f then 5 else 0)" for X :: rat
    using assms by (cases "v_averageResponseTime vol") (auto simp: f_def)
  have s5: "(if \<not> v_isOnline vol then X - 20 else X)
            = X - (if \<not> v_isOnline vol then 20 else 0)" for X :: rat
    by simp
  have code: "calculateVolunteerScore s now vol helpCategory priority
        = max (A + B - C + (if k then 10 else 0) + (if f then 5 else 0)
                 - (if \<not> v_isOnline vol then 20 else 0)) 0"
    unfolding calculateVolunteerScore_def Let_def
      A_def [symmetric] B_def [symmetric] C_def [symmetric] s3 s4 s5 ..
  have AB: "A = v_reputationScore vol * (1 / 10)"
     "B = min (of_int (now - (case volunteerLastCall s (v_id vol) of None \<Rightarrow> 0 | Some t \<Rightarrow> t))
              / 3600000 * 2) 10"
    by (simp_all add: A_def B_def reputationWeight_def)
  have claim: "claimedVolunteerScore s now vol helpCategory
        = A + B - C + (if k then 10 else 0) + (if f then 5 else 0)
            - (if \<not> v_isOnline vol then 20 else 0)"
    unfolding claimedVolunteerScore_def AB C_def k_def f_def ..
  have 1: "calculateVolunteerScore s now vol helpCategory priority
           = max (claimedVolunteerScore s now vol helpCategory) 0"
    unfolding code claim ..
  have 2: "v_reputationScore vol = 100
            \<and> now - (case volunteerLastCall s (v_id vol) of None \<Rightarrow> 0 | Some t \<Rightarrow> t) = 3600000
            \<and> callCount s (v_id vol) = None
            \<and> v_skills vol = Some sk \<and> helpCategory \<in> set sk
            \<and> v_averageResponseTime vol = None \<and> v_isOnline vol
          \<Longrightarrow> calculateVolunteerScore s now vol helpCategory priority = 22"
    unfolding 1 by (simp add: claimedVolunteerScore_def)
  show ?thesis using 1 2 by blast
qed

theorem calculateVolunteerScore_floored_witness:
  "v_averageResponseTime readingVolunteer \<noteq> Some 0
   \<and> claimedVolunteerScore matching_init 3600000 readingVolunteer ''reading'' = 22
   \<and> calculateVolunteerScore matching_init 3600000 readingVolunteer ''reading'' 5 = 22"
proof -
  have a: "v_averageResponseTime readingVolunteer \<noteq> Some 0"
    by (simp add: readingVolunteer_def)
  have c: "claimedVolunteerScore matching_init 3600000 readingVolunteer ''reading'' = 22"
    by (simp add: claimedVolunteerScore_def readingVolunteer_def matching_init_def)
  show ?thesis
    using calculateVolunteerScore_floored [OF a, of matching_init 3600000 "''reading''" 5] a c
    by simp
qed

theorem calculateVolunteerScore_not_claimed:
  "calculateVolunteerScore matching_init 0 offlineVolunteer ''reading'' 5 = 0
   \<and> claimedVolunteerScore matching_init 0 offlineVolunteer ''reading'' = - 20"
  by (simp add: calculateVolunteerScore_def claimedVolunteerScore_def offlineVolunteer_def
      matching_init_def reputationWeight_def Let_def)

lemma matched_state:
  "activeMatches matched ''room1'' = Some \<lparr>m_callId = ''call1'', m_blindUserId = ''blind1'',
       m_volunteerUserId = ''vol1'', m_roomId = ''room1'', m_status = ''matched'',
       m_matchedAt = 2000\<rparr>"
  "map_option cd_status (m_calls matched ''call1'') = Some ''pending''"
  "waitingQueue matched ''blind1'' = None"
  "map_option usr_userType (m_users matched ''blind1'') = Some ''blind''"
  by (simp_all add: matched_def matching_defs)

lemma declineMatch_matched:
  "fst (declineMatch ''room1'' ''vol1'' reason 5000 matched) = Inr rematchInfo"
  using matched_state(1,2)
  by (auto simp: declineMatch_def setVolunteerAvailability_def rematchInfo_def Let_def
      split: option.splits)

lemma matchedUnavailable_state:
  "activeMatches matchedUnavailable ''room1'' = Some \<lparr>m_callId = ''call1'',
       m_blindUserId = ''blind1'', m_volunteerUserId = ''vol1'', m_roomId = ''room1'',
       m_status = ''matched'', m_matchedAt = 2000\<rparr>"
  "map_option cd_status (m_calls matchedUnavailable ''call1'') = Some ''pending''"
  "map_option usr_isAvailable (m_users matchedUnavailable ''vol1'') = Some False"
  using matched_state(1,2) by (simp_all add: matchedUnavailable_def)

text \<open>
  Claim C8. A successful \<open>declineMatch\<close> should mark the call failed, make the volunteer
  available again, and put the help-seeker back into the waiting queue with a fresh
  60-second deadline. In the code, the method builds the waiting entry (status
  \<open>rematching\<close>, deadline 60 seconds ahead) and hands it to \<open>attemptMatch\<close>, but
  never stores it in \<open>waitingQueue\<close>, as \<open>startMatching\<close> does with its entry;
  and \<open>setVolunteerAvailability\<close>, called under the comment that the volunteer is made
  available again, prints a line and writes no document. Evaluated here: the volunteer
  declines the match of \<open>room1\<close>. The method succeeds and the call is marked failed, but
  the waiting queue has no entry for the help-seeker, neither when the method returns nor
  after the detached attempt has run; and a volunteer whose document says not available
  is still not available afterwards.
\<close>

theorem declineMatch_no_waiting_entry:
  "fst (declineMatch ''room1'' ''vol1'' None 5000 matched) = Inr rematchInfo
   \<and> map_option cd_status
        (m_calls (snd (declineMatch ''room1'' ''vol1'' None 5000 matched)) ''call1'')
       = Some ''failed''
   \<and> waitingQueue (snd (declineMatch ''room1'' ''vol1'' None 5000 matched)) ''blind1'' = None
   \<and> waitingQueue (rematch noVolunteersEnv rematchInfo
        (snd (declineMatch ''room1'' ''vol1'' None 5000 matched))) ''blind1'' = None
   \<and> map_option usr_isAvailable (m_users matchedUnavailable ''vol1'') = Some False
   \<and> fst (declineMatch ''room1'' ''vol1'' None 5000 matchedUnavailable) = Inr rematchInfo
   \<and> map_option usr_isAvailable
        (m_users (snd (declineMatch ''room1'' ''vol1'' None 5000 matchedUnavailable)) ''vol1'')
       = Some False"
proof -
  let ?s = "snd (declineMatch ''room1'' ''vol1'' None 5000 matched)"
  have 0: "map_option cd_status (m_calls ?s ''call1'') = Some ''failed''"
    using matched_state
    by (auto simp: declineMatch_def setVolunteerAvailability_def Let_def split: option.splits)
  have 1: "waitingQueue ?s ''blind1'' = None"
    using matched_state
    by (auto simp: declineMatch_def setVolunteerAvailability_def Let_def split: option.splits)
  have "\<exists>e s''. attemptMatch noVolunteersEnv ''blind1'' rematchInfo ?s = (Inl e, s'', 2)
          \<and> waitingQueue s'' ''blind1'' = None
           \<and> (clock noVolunteersEnv 3 \<le> w_timeout rematchInfo \<longrightarrow>
                (\<exists>u. m_users ?s ''blind1'' = Some u \<and> usr_userType u = ''blind'') \<longrightarrow>
                e = MatchingError ''No volunteers available at the moment'')"
    by (rule attemptMatch_no_volunteers) (simp_all add: noVolunteersEnv_def)
  then have 2: "waitingQueue (rematch noVolunteersEnv rematchInfo ?s) ''blind1'' = None"
    by (auto simp: rematch_def rematchInfo_def)
  have 3: "fst (declineMatch ''room1'' ''vol1'' None 5000 matchedUnavailable) = Inr rematchInfo"
    using matchedUnavailable_state(1,2)
    by (auto simp: declineMatch_def setVolunteerAvailability_def rematchInfo_def Let_def
        split: option.splits)
  have 4: "map_option usr_isAvailable
        (m_users (snd (declineMatch ''room1'' ''vol1'' None 5000 matchedUnavailable)) ''vol1'')
       = Some False"
    using matchedUnavailable_state
    by (auto simp: declineMatch_def setVolunteerAvailability_def Let_def split: option.splits)
  show ?thesis using 0 1 2 3 4 matchedUnavailable_state(3) declineMatch_matched [of None] by simp
qed

end
